theory Spec2Isabelle
  imports Main "HOL-Library.Word"
begin

section \<open>The scream receiver: \<^verbatim>\<open>Receivers/unix/scream.c\<close>\<close>

text \<open>
  The file holds three functions: \<^verbatim>\<open>show_usage\<close>, \<^verbatim>\<open>get_interface\<close> and \<^verbatim>\<open>main\<close>.
  \<^verbatim>\<open>main\<close> parses the command line with \<^verbatim>\<open>getopt\<close>, initialises one output
  backend and one receiver, and then runs the loop
  \<^verbatim>\<open>for (;;) { receiver_rcv_fn(&receiver_data); if (output_send_fn(&receiver_data) != 0) return 1; }\<close>.

  The embedding keeps the local variables of \<^verbatim>\<open>main\<close> in a record, records what the
  program prints on stderr and which functions of the other translation units it calls
  in a list of events, and returns how the process ends. Functions that live in other
  files (the backends and receivers) and in the C library are parameters: a record of
  functions on an abstract world \<open>'w\<close>, which also holds \<^verbatim>\<open>receiver_data\<close>.
\<close>

subsection \<open>Types of \<^verbatim>\<open>scream.h\<close> and of the C library\<close>

text \<open>The two enums of \<^verbatim>\<open>scream.h\<close>, by the enumerators that \<^verbatim>\<open>main\<close> uses.\<close>

datatype receiver_type = Unicast | Multicast | SharedMem

datatype output_type = Raw | Alsa | Pulseaudio

type_synonym in_addr_t = "32 word"

type_synonym uint16_t = "16 word"

text \<open>
  The two function pointers \<^verbatim>\<open>receiver_rcv_fn\<close> and \<^verbatim>\<open>output_send_fn\<close> range over the
  functions that \<^verbatim>\<open>main\<close> assigns to them.
\<close>

datatype rcv_fn = Rcv_shmem | Rcv_network

datatype send_fn = Pulse_output_send | Alsa_output_send | Raw_output_send

text \<open>The compile-time switches of \<^verbatim>\<open>config.h\<close>.\<close>

record build_config =
  PULSEAUDIO_ENABLE :: bool
  ALSA_ENABLE :: bool

text \<open>An argument of an \<^verbatim>\<open>fprintf\<close> call, kept beside its format string.\<close>

datatype fmt_arg = Str string | Addr in_addr_t

text \<open>
  What the process does that can be seen from outside \<^verbatim>\<open>main\<close>: a line printed on
  stderr, or a call of a function of another file with its arguments.
\<close>

datatype event =
    Fprintf_stderr string "fmt_arg list"
  | Call_setpriority int
  | Call_pulse_output_init int int string
  | Call_alsa_output_init int string
  | Call_raw_output_init
  | Call_init_shmem "string option"
  | Call_init_network receiver_type in_addr_t uint16_t "string option"
  | Call_rcv rcv_fn
  | Call_send send_fn

text \<open>
  How a piece of the program ends: it goes on with a value, or the process exits with a
  status (\<^verbatim>\<open>exit(n)\<close> or \<^verbatim>\<open>return n\<close> from \<^verbatim>\<open>main\<close>).
\<close>

datatype 'a step = Continue 'a | Exit int

text \<open>How a run ends when it is watched for a bounded number of loop iterations.\<close>

datatype outcome = Exited int | Running

subsection \<open>\<^verbatim>\<open>atoi\<close>\<close>

text \<open>
  \<^verbatim>\<open>atoi\<close> of the C library: skip white space, read an optional sign, read decimal digits
  up to the first character that is not one. No digit gives 0. For a number outside the
  range of \<^verbatim>\<open>int\<close> the C standard fixes no value; the C library the program is built
  with computes \<^verbatim>\<open>(int) strtol(s, NULL, 10)\<close>: \<^verbatim>\<open>strtol\<close> stops at the ends of the
  range of \<^verbatim>\<open>long\<close> (64 bits), and the conversion to \<^verbatim>\<open>int\<close> keeps the low 32 bits, read
  as two's complement. So \<^verbatim>\<open>2147483648\<close> gives \<open>- 2147483648\<close> and \<^verbatim>\<open>4294967296\<close>
  gives 0.
\<close>

definition isspace :: "char \<Rightarrow> bool" where
  "isspace c = (c = CHR '' '' \<or> (9::nat) \<le> of_char c \<and> of_char c \<le> (13::nat))"

definition isdigit :: "char \<Rightarrow> bool" where
  "isdigit c = ((48::nat) \<le> of_char c \<and> of_char c \<le> (57::nat))"

fun digits_value :: "nat \<Rightarrow> string \<Rightarrow> nat" where
  "digits_value acc [] = acc"
| "digits_value acc (c # cs) =
     (if isdigit c then digits_value (10 * acc + (of_char c - 48)) cs else acc)"

definition LONG_MAX :: int where
  "LONG_MAX = 9223372036854775807"

definition LONG_MIN :: int where
  "LONG_MIN = - 9223372036854775808"

text \<open>\<^verbatim>\<open>strtol\<close> in base 10, with the value kept inside the range of \<^verbatim>\<open>long\<close>.\<close>

definition strtol :: "string \<Rightarrow> int" where
  "strtol s =
     (let s1 = dropWhile isspace s;
          neg = (case s1 of [] \<Rightarrow> False | c # _ \<Rightarrow> c = CHR ''-'');
          s2 = (case s1 of [] \<Rightarrow> [] | c # r \<Rightarrow> if c = CHR ''-'' \<or> c = CHR ''+'' then r else s1);
          n = int (digits_value 0 s2);
          v = (if neg then - n else n)
      in if v < LONG_MIN then LONG_MIN else if LONG_MAX < v then LONG_MAX else v)"

text \<open>The conversion of a \<^verbatim>\<open>long\<close> to \<^verbatim>\<open>int\<close>: the low 32 bits, as two's complement.\<close>

definition long_to_int :: "int \<Rightarrow> int" where
  "long_to_int x = (x + 2147483648) mod 4294967296 - 2147483648"

definition atoi :: "string \<Rightarrow> int" where
  "atoi s = long_to_int (strtol s)"

subsection \<open>\<^verbatim>\<open>show_usage\<close>\<close>

text \<open>
  \<^verbatim>\<open>show_usage\<close> prints the usage text, one \<^verbatim>\<open>fprintf\<close> per line, and calls
  \<^verbatim>\<open>exit(1)\<close>. Only the second line has an argument, the program's name.
\<close>

definition usage_lines :: "string \<Rightarrow> event list" where
  "usage_lines arg0 =
    [Fprintf_stderr ''\<newline>'' [],
     Fprintf_stderr ''Usage: %s [-u] [-p <port>] [-i <iface>] [-g <group>]\<newline>'' [Str arg0],
     Fprintf_stderr ''\<newline>'' [],
     Fprintf_stderr ''         All command line options are optional. Default is to use\<newline>'' [],
     Fprintf_stderr ''         multicast with group address 239.255.77.77, port 4010.\<newline>'' [],
     Fprintf_stderr ''\<newline>'' [],
     Fprintf_stderr ''         -u                        : Use unicast instead of multicast.\<newline>'' [],
     Fprintf_stderr ''         -p <port>                 : Use <port> instead of default port 4010.\<newline>'' [],
     Fprintf_stderr ''                                     Applies to both multicast and unicast.\<newline>'' [],
     Fprintf_stderr ''         -i <iface>                : Use local interface <iface>. Either the IP\<newline>'' [],
     Fprintf_stderr ''                                     or the interface name can be specified. In\<newline>'' [],
     Fprintf_stderr ''                                     multicast mode, uses this interface for IGMP.\<newline>'' [],
     Fprintf_stderr ''                                     In unicast, binds to this interface only.\<newline>'' [],
     Fprintf_stderr ''         -g <group>                : Multicast group address. Multicast mode only.\<newline>'' [],
     Fprintf_stderr ''         -m <ivshmem device path>  : Use shared memory device.\<newline>'' [],
     Fprintf_stderr ''\<newline>'' [],
     Fprintf_stderr ''         -o pulse|alsa|raw         : Send audio to PulseAudio, ALSA, or stdout.\<newline>'' [],
     Fprintf_stderr ''         -d <device>               : ALSA device name. 'default' if not specified.\<newline>'' [],
     Fprintf_stderr ''         -n <stream name>          : Pulseaudio stream name/description.\<newline>'' [],
     Fprintf_stderr ''         -t <latency>              : Target latency in milliseconds. Defaults to 50ms.\<newline>'' [],
     Fprintf_stderr ''                                     Only relevant for PulseAudio and ALSA output.\<newline>'' [],
     Fprintf_stderr ''         -l <latency>              : Max latency in milliseconds. Defaults to 200ms.\<newline>'' [],
     Fprintf_stderr ''                                     Only relevant for PulseAudio output.\<newline>'' [],
     Fprintf_stderr ''\<newline>'' [],
     Fprintf_stderr ''         -v                        : Be verbose.\<newline>'' [],
     Fprintf_stderr ''\<newline>'' []]"

definition show_usage :: "string \<Rightarrow> event list \<times> 'a step" where
  "show_usage arg0 = (usage_lines arg0, Exit 1)"

subsection \<open>\<^verbatim>\<open>get_interface\<close>\<close>

text \<open>
  The operating system as \<^verbatim>\<open>get_interface\<close> sees it: \<^verbatim>\<open>inet_addr\<close>, the
  \<^verbatim>\<open>SIOCGIFADDR\<close> ioctl on a datagram socket (\<open>None\<close> when it does not return 0), and
  the names that \<^verbatim>\<open>if_nameindex\<close> lists.
\<close>

record os_env =
  inet_addr :: "string \<Rightarrow> in_addr_t"
  siocgifaddr :: "string \<Rightarrow> in_addr_t option"
  if_nameindex :: "string list"

definition INADDR_NONE :: in_addr_t where
  "INADDR_NONE = 0xFFFFFFFF"

definition INADDR_ANY :: in_addr_t where
  "INADDR_ANY = 0"

text \<open>\<^verbatim>\<open>sizeof(ifr.ifr_name)\<close>, which is \<^verbatim>\<open>IFNAMSIZ\<close> of \<^verbatim>\<open>net/if.h\<close>.\<close>

definition IFNAMSIZ :: nat where
  "IFNAMSIZ = 16"

text \<open>The code after the label \<^verbatim>\<open>error_exit\<close>: list the interfaces that have an address.\<close>

definition error_exit :: "os_env \<Rightarrow> event list" where
  "error_exit os =
     Fprintf_stderr ''Available interfaces:\<newline>'' [] #
     concat (map (\<lambda>n. case siocgifaddr os n of
                         Some a \<Rightarrow> [Fprintf_stderr ''  %-10s (%s)\<newline>'' [Str n, Addr a]]
                       | None \<Rightarrow> [])
                 (if_nameindex os))"

definition get_interface :: "os_env \<Rightarrow> string \<Rightarrow> event list \<times> in_addr_t step" where
  "get_interface os name =
     (let addr = inet_addr os name in
      if addr \<noteq> INADDR_NONE then ([], Continue addr)
      else if length name \<ge> IFNAMSIZ then
        (Fprintf_stderr ''Too long interface name: %s\<newline>\<newline>'' [Str name] # error_exit os, Exit 1)
      else (case siocgifaddr os name of
              None \<Rightarrow> (Fprintf_stderr ''Invalid interface: %s\<newline>\<newline>'' [Str name] # error_exit os, Exit 1)
            | Some a \<Rightarrow> ([], Continue a)))"

subsection \<open>The local variables of \<^verbatim>\<open>main\<close> and the option loop\<close>

text \<open>
  The variables that the option loop sets, with the global \<^verbatim>\<open>verbosity\<close>. A
  \<^verbatim>\<open>char *\<close> that starts as \<^verbatim>\<open>NULL\<close> is a \<open>string option\<close>. The variable
  \<^verbatim>\<open>output\<close> is \<open>output_arg\<close> here and \<^verbatim>\<open>interface\<close> is \<open>iface\<close>.
\<close>

record vars =
  receiver_mode :: receiver_type
  output_mode :: output_type
  multicast_group :: "string option"
  ivshmem_device :: "string option"
  output_arg :: "string option"
  alsa_device :: string
  stream_name :: string
  target_latency_ms :: int
  max_latency_ms :: int
  iface :: in_addr_t
  port :: uint16_t
  verbosity :: int

text \<open>\<^verbatim>\<open>DEFAULT_PORT\<close> of \<^verbatim>\<open>scream.h\<close>; the usage text gives its value.\<close>

definition DEFAULT_PORT :: uint16_t where
  "DEFAULT_PORT = 4010"

text \<open>The default of \<^verbatim>\<open>output_mode\<close>, chosen by the preprocessor.\<close>

definition default_output_mode :: "build_config \<Rightarrow> output_type" where
  "default_output_mode b =
     (if PULSEAUDIO_ENABLE b then Pulseaudio else if ALSA_ENABLE b then Alsa else Raw)"

text \<open>
  The initial values. \<^verbatim>\<open>verbosity\<close> is a global that another file defines; it is taken
  to start at 0. It counts the \<^verbatim>\<open>-v\<close> options, which are fewer than \<^verbatim>\<open>argc\<close>, so it
  does not overflow.
\<close>

definition init_vars :: "build_config \<Rightarrow> vars" where
  "init_vars b =
     \<lparr> receiver_mode = Multicast,
       output_mode = default_output_mode b,
       multicast_group = None,
       ivshmem_device = None,
       output_arg = None,
       alsa_device = ''default'',
       stream_name = ''Audio'',
       target_latency_ms = 50,
       max_latency_ms = 200,
       iface = INADDR_ANY,
       port = DEFAULT_PORT,
       verbosity = 0 \<rparr>"

text \<open>
  One result of \<^verbatim>\<open>getopt(argc, argv, "i:g:p:m:o:d:n:t:l:uvh")\<close>: the option character
  it returns and \<^verbatim>\<open>optarg\<close>. \<^verbatim>\<open>getopt\<close> returns \<^verbatim>\<open>?\<close> for an option that is not in the
  list or that lacks its argument. \<^verbatim>\<open>getopt\<close> belongs to the C library: the command line
  enters the model as the sequence of its results, and what \<^verbatim>\<open>getopt\<close> itself prints is
  not recorded. \<^verbatim>\<open>strdup\<close> is taken to succeed.
\<close>

type_synonym getopt_result = "char \<times> string"

text \<open>The body of the \<^verbatim>\<open>switch (opt)\<close>, for one result of \<^verbatim>\<open>getopt\<close>.\<close>

definition opt_case :: "os_env \<Rightarrow> string \<Rightarrow> vars \<Rightarrow> getopt_result \<Rightarrow> event list \<times> vars step" where
  "opt_case os arg0 v r =
     (let opt = fst r; optarg = snd r in
      if opt = CHR ''i'' then
        (case get_interface os optarg of
           (ev, Continue a) \<Rightarrow> (ev, Continue (v\<lparr>iface := a\<rparr>))
         | (ev, Exit n) \<Rightarrow> (ev, Exit n))
      else if opt = CHR ''p'' then
        (let p = (word_of_int (atoi optarg) :: uint16_t) in
         if p = 0 then show_usage arg0 else ([], Continue (v\<lparr>port := p\<rparr>)))
      else if opt = CHR ''u'' then ([], Continue (v\<lparr>receiver_mode := Unicast\<rparr>))
      else if opt = CHR ''g'' then ([], Continue (v\<lparr>multicast_group := Some optarg\<rparr>))
      else if opt = CHR ''m'' then
        ([], Continue (v\<lparr>receiver_mode := SharedMem, ivshmem_device := Some optarg\<rparr>))
      else if opt = CHR ''o'' then
        (let v1 = v\<lparr>output_arg := Some optarg\<rparr> in
         if optarg = ''pulse'' then ([], Continue (v1\<lparr>output_mode := Pulseaudio\<rparr>))
         else if optarg = ''alsa'' then ([], Continue (v1\<lparr>output_mode := Alsa\<rparr>))
         else if optarg = ''raw'' then ([], Continue (v1\<lparr>output_mode := Raw\<rparr>))
         else ([], Continue v1))
      else if opt = CHR ''d'' then ([], Continue (v\<lparr>alsa_device := optarg\<rparr>))
      else if opt = CHR ''n'' then ([], Continue (v\<lparr>stream_name := optarg\<rparr>))
      else if opt = CHR ''t'' then
        (let n = atoi optarg in
         if n < 0 then show_usage arg0 else ([], Continue (v\<lparr>target_latency_ms := n\<rparr>)))
      else if opt = CHR ''l'' then
        (let n = atoi optarg in
         if n < 0 then show_usage arg0 else ([], Continue (v\<lparr>max_latency_ms := n\<rparr>)))
      else if opt = CHR ''v'' then ([], Continue (v\<lparr>verbosity := verbosity v + 1\<rparr>))
      else show_usage arg0)"

text \<open>
  The \<^verbatim>\<open>while\<close> loop over the results of \<^verbatim>\<open>getopt\<close>, in the order \<^verbatim>\<open>getopt\<close> gives
  them. It stops at the first option that ends the process.
\<close>

fun getopt_loop :: "os_env \<Rightarrow> string \<Rightarrow> getopt_result list \<Rightarrow> vars \<Rightarrow> event list \<times> vars step" where
  "getopt_loop os arg0 [] v = ([], Continue v)"
| "getopt_loop os arg0 (r # rs) v =
     (case opt_case os arg0 v r of
        (ev, Continue v') \<Rightarrow> (case getopt_loop os arg0 rs v' of (ev', res) \<Rightarrow> (ev @ ev', res))
      | (ev, Exit n) \<Rightarrow> (ev, Exit n))"

text \<open>
  Option parsing as a whole: the loop, then the test \<^verbatim>\<open>optind < argc\<close>, which holds when
  arguments that are not options are left.
\<close>

definition parse_options ::
    "build_config \<Rightarrow> os_env \<Rightarrow> string \<Rightarrow> getopt_result list \<Rightarrow> string list \<Rightarrow> event list \<times> vars step" where
  "parse_options b os arg0 opts operands =
     (case getopt_loop os arg0 opts (init_vars b) of
        (ev, Continue v) \<Rightarrow>
          if operands \<noteq> [] then
            (case (show_usage arg0 :: event list \<times> vars step) of
               (ev', res) \<Rightarrow> (ev @ [Fprintf_stderr ''Expected argument after options\<newline>'' []] @ ev', res))
          else (ev, Continue v)
      | (ev, Exit n) \<Rightarrow> (ev, Exit n))"

subsection \<open>The backends and receivers\<close>

text \<open>
  The functions of the other files that \<^verbatim>\<open>main\<close> calls, as functions on the world. An
  \<^verbatim>\<open>int\<close> function returns its status with the new world; a \<^verbatim>\<open>void\<close> function
  returns the new world. The arguments are those of the calls in \<^verbatim>\<open>main\<close>. Each call is
  taken to return to \<^verbatim>\<open>main\<close>.
\<close>

record 'w backends =
  pulse_output_init :: "int \<Rightarrow> int \<Rightarrow> string \<Rightarrow> 'w \<Rightarrow> int \<times> 'w"
  alsa_output_init :: "int \<Rightarrow> string \<Rightarrow> 'w \<Rightarrow> int \<times> 'w"
  raw_output_init :: "'w \<Rightarrow> int \<times> 'w"
  pulse_output_send :: "'w \<Rightarrow> int \<times> 'w"
  alsa_output_send :: "'w \<Rightarrow> int \<times> 'w"
  raw_output_send :: "'w \<Rightarrow> int \<times> 'w"
  init_shmem :: "string option \<Rightarrow> 'w \<Rightarrow> 'w"
  init_network :: "receiver_type \<Rightarrow> in_addr_t \<Rightarrow> uint16_t \<Rightarrow> string option \<Rightarrow> 'w \<Rightarrow> 'w"
  rcv_shmem :: "'w \<Rightarrow> 'w"
  rcv_network :: "'w \<Rightarrow> 'w"

text \<open>A call through \<^verbatim>\<open>receiver_rcv_fn\<close> or \<^verbatim>\<open>output_send_fn\<close>.\<close>

fun call_rcv :: "'w backends \<Rightarrow> rcv_fn \<Rightarrow> 'w \<Rightarrow> 'w" where
  "call_rcv be Rcv_shmem w = rcv_shmem be w"
| "call_rcv be Rcv_network w = rcv_network be w"

fun call_send :: "'w backends \<Rightarrow> send_fn \<Rightarrow> 'w \<Rightarrow> int \<times> 'w" where
  "call_send be Pulse_output_send w = pulse_output_send be w"
| "call_send be Alsa_output_send w = alsa_output_send be w"
| "call_send be Raw_output_send w = raw_output_send be w"

subsection \<open>Initialising the output\<close>

text \<open>The line a branch prints when \<^verbatim>\<open>verbosity\<close> is not 0.\<close>

definition verbose :: "vars \<Rightarrow> string \<Rightarrow> fmt_arg list \<Rightarrow> event list" where
  "verbose v fmt args = (if verbosity v \<noteq> 0 then [Fprintf_stderr fmt args] else [])"

text \<open>
  The \<^verbatim>\<open>switch (output_mode)\<close>. A branch whose backend is compiled out prints a message
  and returns 1; otherwise the backend's init function is called once, a status other than
  0 makes \<^verbatim>\<open>main\<close> return 1, and 0 assigns \<^verbatim>\<open>output_send_fn\<close>. The result holds the
  world that the init call leaves.
\<close>

definition init_output ::
    "build_config \<Rightarrow> 'w backends \<Rightarrow> string \<Rightarrow> vars \<Rightarrow> 'w \<Rightarrow> event list \<times> send_fn step \<times> 'w" where
  "init_output b be arg0 v w =
     (case output_mode v of
        Pulseaudio \<Rightarrow>
          if PULSEAUDIO_ENABLE b then
            (case pulse_output_init be (target_latency_ms v) (max_latency_ms v) (stream_name v) w of
               (r, w') \<Rightarrow>
                 (verbose v ''Using Pulseaudio output\<newline>'' [] @
                  [Call_pulse_output_init (target_latency_ms v) (max_latency_ms v) (stream_name v)],
                  if r \<noteq> 0 then Exit 1 else Continue Pulse_output_send, w'))
          else ([Fprintf_stderr ''%s compiled without Pulseaudio support. Aborting\<newline>'' [Str arg0]],
                Exit 1, w)
      | Alsa \<Rightarrow>
          if ALSA_ENABLE b then
            (case alsa_output_init be (target_latency_ms v) (alsa_device v) w of
               (r, w') \<Rightarrow>
                 (verbose v ''Using ALSA output\<newline>'' [] @
                  [Call_alsa_output_init (target_latency_ms v) (alsa_device v)],
                  if r \<noteq> 0 then Exit 1 else Continue Alsa_output_send, w'))
          else ([Fprintf_stderr ''%s compiled without ALSA support. Aborting\<newline>'' [Str arg0]],
                Exit 1, w)
      | Raw \<Rightarrow>
          (case raw_output_init be w of
             (r, w') \<Rightarrow>
               (verbose v ''Using raw output\<newline>'' [] @ [Call_raw_output_init],
                if r \<noteq> 0 then Exit 1 else Continue Raw_output_send, w')))"

subsection \<open>Initialising the receiver\<close>

text \<open>
  The \<^verbatim>\<open>switch (receiver_mode)\<close>: \<^verbatim>\<open>SharedMem\<close> has its own branch, \<^verbatim>\<open>Unicast\<close>,
  \<^verbatim>\<open>Multicast\<close> and \<^verbatim>\<open>default\<close> share the other.
\<close>

definition init_receiver :: "'w backends \<Rightarrow> vars \<Rightarrow> 'w \<Rightarrow> event list \<times> rcv_fn \<times> 'w" where
  "init_receiver be v w =
     (case receiver_mode v of
        SharedMem \<Rightarrow>
          (verbose v ''Starting IVSHMEM receiver\<newline>'' [] @ [Call_init_shmem (ivshmem_device v)],
           Rcv_shmem, init_shmem be (ivshmem_device v) w)
      | _ \<Rightarrow>
          (verbose v ''Starting %s receiver\<newline>''
             [Str (if receiver_mode v = Unicast then ''unicast'' else ''multicast'')] @
           [Call_init_network (receiver_mode v) (iface v) (port v) (multicast_group v)],
           Rcv_network, init_network be (receiver_mode v) (iface v) (port v) (multicast_group v) w))"

subsection \<open>The driver loop\<close>

text \<open>
  \<^verbatim>\<open>for (;;) { receiver_rcv_fn(&receiver_data); if (output_send_fn(&receiver_data) != 0) return 1; }\<close>
  The loop has no exit of its own, so it is watched for a number of iterations: after
  that many iterations without a \<^verbatim>\<open>return\<close> the outcome is \<open>Running\<close>.
\<close>

fun driver_loop :: "'w backends \<Rightarrow> rcv_fn \<Rightarrow> send_fn \<Rightarrow> nat \<Rightarrow> 'w \<Rightarrow> event list \<times> outcome \<times> 'w" where
  "driver_loop be r s 0 w = ([], Running, w)"
| "driver_loop be r s (Suc n) w =
     (case call_send be s (call_rcv be r w) of
        (status, w') \<Rightarrow>
          if status \<noteq> 0 then ([Call_rcv r, Call_send s], Exited 1, w')
          else (case driver_loop be r s n w' of
                  (ev, res) \<Rightarrow> ([Call_rcv r, Call_send s] @ ev, res)))"

subsection \<open>\<^verbatim>\<open>main\<close>\<close>

text \<open>
  \<^verbatim>\<open>main\<close>: parse the options, call \<^verbatim>\<open>setpriority(PRIO_PROCESS, 0, -11)\<close>, initialise the
  output, initialise the receiver, run the loop. The arguments are \<^verbatim>\<open>argv[0]\<close>, the
  results of \<^verbatim>\<open>getopt\<close>, the arguments left after the options, the number of loop
  iterations to watch, and the world at the start. \<open>main_run\<close> gives what the run prints
  and calls, how it ends, and the world it leaves.
\<close>

definition main_run ::
    "build_config \<Rightarrow> os_env \<Rightarrow> 'w backends \<Rightarrow> string \<Rightarrow> getopt_result list \<Rightarrow> string list \<Rightarrow>
     nat \<Rightarrow> 'w \<Rightarrow> event list \<times> outcome \<times> 'w" where
  "main_run b os be arg0 opts operands n w =
     (case parse_options b os arg0 opts operands of
        (ev, Exit c) \<Rightarrow> (ev, Exited c, w)
      | (ev, Continue v) \<Rightarrow>
          (case init_output b be arg0 v w of
             (ev1, Exit c, w1) \<Rightarrow> (ev @ [Call_setpriority (- 11)] @ ev1, Exited c, w1)
           | (ev1, Continue sfn, w1) \<Rightarrow>
               (case init_receiver be v w1 of
                  (ev2, rfn, w2) \<Rightarrow>
                    (case driver_loop be rfn sfn n w2 of
                       (ev3, res, w3) \<Rightarrow>
                         (ev @ [Call_setpriority (- 11)] @ ev1 @ ev2 @ ev3, res, w3)))))"

text \<open>
  \<open>main\<close> is the part of the run that is seen from outside the backends: the output and
  the calls, and how the process ends.
\<close>

definition main ::
    "build_config \<Rightarrow> os_env \<Rightarrow> 'w backends \<Rightarrow> string \<Rightarrow> getopt_result list \<Rightarrow> string list \<Rightarrow>
     nat \<Rightarrow> 'w \<Rightarrow> event list \<times> outcome" where
  "main b os be arg0 opts operands n w =
     (case main_run b os be arg0 opts operands n w of (ev, res, w') \<Rightarrow> (ev, res))"

section \<open>Observing a run\<close>

text \<open>The kinds of event, to pick the calls of one kind out of a run.\<close>

fun is_print :: "event \<Rightarrow> bool" where
  "is_print (Fprintf_stderr _ _) = True"
| "is_print _ = False"

fun is_output_init :: "event \<Rightarrow> bool" where
  "is_output_init (Call_pulse_output_init _ _ _) = True"
| "is_output_init (Call_alsa_output_init _ _) = True"
| "is_output_init Call_raw_output_init = True"
| "is_output_init _ = False"

fun is_receiver_init :: "event \<Rightarrow> bool" where
  "is_receiver_init (Call_init_shmem _) = True"
| "is_receiver_init (Call_init_network _ _ _ _) = True"
| "is_receiver_init _ = False"

fun is_loop_call :: "event \<Rightarrow> bool" where
  "is_loop_call (Call_rcv _) = True"
| "is_loop_call (Call_send _) = True"
| "is_loop_call _ = False"

text \<open>The events of \<open>k\<close> iterations of the loop: one receive, then one send, \<open>k\<close> times.\<close>

definition iterations :: "rcv_fn \<Rightarrow> send_fn \<Rightarrow> nat \<Rightarrow> event list" where
  "iterations r s k = concat (replicate k [Call_rcv r, Call_send s])"

text \<open>
  The world after \<open>k\<close> whole iterations, and the status that the send function returns
  in iteration \<open>k\<close> (counted from 0) if the loop gets that far.
\<close>

fun world_after :: "'w backends \<Rightarrow> rcv_fn \<Rightarrow> send_fn \<Rightarrow> nat \<Rightarrow> 'w \<Rightarrow> 'w" where
  "world_after be r s 0 w = w"
| "world_after be r s (Suc k) w = world_after be r s k (snd (call_send be s (call_rcv be r w)))"

definition send_status :: "'w backends \<Rightarrow> rcv_fn \<Rightarrow> send_fn \<Rightarrow> nat \<Rightarrow> 'w \<Rightarrow> int" where
  "send_status be r s k w = fst (call_send be s (call_rcv be r (world_after be r s k w)))"

text \<open>
  What the selected backend's init function returns; \<open>None\<close> when the backend is
  compiled out and no init function is called.
\<close>

definition selected_init_status :: "build_config \<Rightarrow> 'w backends \<Rightarrow> vars \<Rightarrow> 'w \<Rightarrow> int option" where
  "selected_init_status b be v w =
     (case output_mode v of
        Pulseaudio \<Rightarrow>
          if PULSEAUDIO_ENABLE b
          then Some (fst (pulse_output_init be (target_latency_ms v) (max_latency_ms v) (stream_name v) w))
          else None
      | Alsa \<Rightarrow>
          if ALSA_ENABLE b
          then Some (fst (alsa_output_init be (target_latency_ms v) (alsa_device v) w))
          else None
      | Raw \<Rightarrow> Some (fst (raw_output_init be w)))"

text \<open>
  The world that the selected backend's init function leaves, the function being applied
  once to the world at the start; the world at the start when the backend is compiled out.
\<close>

definition selected_init_world :: "build_config \<Rightarrow> 'w backends \<Rightarrow> vars \<Rightarrow> 'w \<Rightarrow> 'w" where
  "selected_init_world b be v w =
     (case output_mode v of
        Pulseaudio \<Rightarrow>
          if PULSEAUDIO_ENABLE b
          then snd (pulse_output_init be (target_latency_ms v) (max_latency_ms v) (stream_name v) w)
          else w
      | Alsa \<Rightarrow>
          if ALSA_ENABLE b
          then snd (alsa_output_init be (target_latency_ms v) (alsa_device v) w)
          else w
      | Raw \<Rightarrow> snd (raw_output_init be w))"

text \<open>
  The world that the init function of the selected receiver leaves, the function being
  applied once to the world it is given.
\<close>

definition selected_receiver_world :: "'w backends \<Rightarrow> vars \<Rightarrow> 'w \<Rightarrow> 'w" where
  "selected_receiver_world be v w =
     (if receiver_mode v = SharedMem then init_shmem be (ivshmem_device v) w
      else init_network be (receiver_mode v) (iface v) (port v) (multicast_group v) w)"

text \<open>The message of a branch whose backend is compiled out.\<close>

definition compiled_out_message :: "output_type \<Rightarrow> string" where
  "compiled_out_message m =
     (case m of
        Pulseaudio \<Rightarrow> ''%s compiled without Pulseaudio support. Aborting\<newline>''
      | Alsa \<Rightarrow> ''%s compiled without ALSA support. Aborting\<newline>''
      | Raw \<Rightarrow> [])"

text \<open>
  The line that the branch of the selected output backend prints before its init call, and
  the line that the branch of the selected receiver prints before its init call, when
  \<^verbatim>\<open>verbosity\<close> is not 0.
\<close>

definition output_verbose_line :: "vars \<Rightarrow> event list" where
  "output_verbose_line v =
     (case output_mode v of
        Pulseaudio \<Rightarrow> verbose v ''Using Pulseaudio output\<newline>'' []
      | Alsa \<Rightarrow> verbose v ''Using ALSA output\<newline>'' []
      | Raw \<Rightarrow> verbose v ''Using raw output\<newline>'' [])"

definition receiver_verbose_line :: "vars \<Rightarrow> event list" where
  "receiver_verbose_line v =
     (if receiver_mode v = SharedMem then verbose v ''Starting IVSHMEM receiver\<newline>'' []
      else verbose v ''Starting %s receiver\<newline>''
             [Str (if receiver_mode v = Unicast then ''unicast'' else ''multicast'')])"

text \<open>Whether the backend of an output mode is part of the build.\<close>

definition backend_compiled :: "build_config \<Rightarrow> output_type \<Rightarrow> bool" where
  "backend_compiled b m =
     (case m of Pulseaudio \<Rightarrow> PULSEAUDIO_ENABLE b | Alsa \<Rightarrow> ALSA_ENABLE b | Raw \<Rightarrow> True)"

text \<open>The init call, the send function, the receiver init call and the receive function
  that belong to the modes in the variables.\<close>

definition selected_init_call :: "vars \<Rightarrow> event" where
  "selected_init_call v =
     (case output_mode v of
        Pulseaudio \<Rightarrow> Call_pulse_output_init (target_latency_ms v) (max_latency_ms v) (stream_name v)
      | Alsa \<Rightarrow> Call_alsa_output_init (target_latency_ms v) (alsa_device v)
      | Raw \<Rightarrow> Call_raw_output_init)"

definition selected_send_fn :: "vars \<Rightarrow> send_fn" where
  "selected_send_fn v =
     (case output_mode v of
        Pulseaudio \<Rightarrow> Pulse_output_send | Alsa \<Rightarrow> Alsa_output_send | Raw \<Rightarrow> Raw_output_send)"

definition selected_receiver_init :: "vars \<Rightarrow> event" where
  "selected_receiver_init v =
     (if receiver_mode v = SharedMem then Call_init_shmem (ivshmem_device v)
      else Call_init_network (receiver_mode v) (iface v) (port v) (multicast_group v))"

definition selected_rcv_fn :: "vars \<Rightarrow> rcv_fn" where
  "selected_rcv_fn v = (if receiver_mode v = SharedMem then Rcv_shmem else Rcv_network)"

text \<open>
  The sink contract of the specification, read on an init call: the call passes the
  target latency, the maximum latency and one name, in this order.
\<close>

fun init_call_args :: "event \<Rightarrow> int list \<times> string list" where
  "init_call_args (Call_pulse_output_init t m n) = ([t, m], [n])"
| "init_call_args (Call_alsa_output_init t d) = ([t], [d])"
| "init_call_args _ = ([], [])"

definition contract_init_call :: "vars \<Rightarrow> event \<Rightarrow> bool" where
  "contract_init_call v e =
     (fst (init_call_args e) = [target_latency_ms v, max_latency_ms v] \<and>
      length (snd (init_call_args e)) = 1)"

text \<open>The three values of \<^verbatim>\<open>-o\<close> that the option loop knows.\<close>

definition known_output :: "string \<Rightarrow> bool" where
  "known_output s = (s = ''pulse'' \<or> s = ''alsa'' \<or> s = ''raw'')"

text \<open>
  The sink contract as a property of a run: once the options are parsed, the run makes
  exactly one output init call, and that call follows the contract.
\<close>

definition init_follows_contract ::
    "build_config \<Rightarrow> os_env \<Rightarrow> 'w backends \<Rightarrow> string \<Rightarrow> getopt_result list \<Rightarrow> string list \<Rightarrow>
     'w \<Rightarrow> bool" where
  "init_follows_contract b os be arg0 opts operands w =
     (case parse_options b os arg0 opts operands of
        (ev, Continue v) \<Rightarrow>
          (case filter is_output_init (fst (main b os be arg0 opts operands 0 w)) of
             [e] \<Rightarrow> contract_init_call v e
           | _ \<Rightarrow> False)
      | _ \<Rightarrow> True)"

text \<open>
  The statement that after option parsing exactly one receiver is initialised, the selected
  one, as a property of a run.
\<close>

definition one_receiver_after_parsing ::
    "build_config \<Rightarrow> os_env \<Rightarrow> 'w backends \<Rightarrow> string \<Rightarrow> getopt_result list \<Rightarrow> string list \<Rightarrow>
     nat \<Rightarrow> 'w \<Rightarrow> bool" where
  "one_receiver_after_parsing b os be arg0 opts operands n w =
     (case parse_options b os arg0 opts operands of
        (ev, Continue v) \<Rightarrow>
          filter is_receiver_init (fst (main b os be arg0 opts operands n w)) =
            [selected_receiver_init v]
      | _ \<Rightarrow> True)"




text \<open>
  Two values of the variables that differ at most in \<^verbatim>\<open>output\<close>, the copy of the
  argument of \<^verbatim>\<open>-o\<close>, which \<^verbatim>\<open>main\<close> never reads after the comparison.
\<close>

definition same_but_output :: "vars \<Rightarrow> vars \<Rightarrow> bool" where
  "same_but_output v v' =
     (receiver_mode v' = receiver_mode v \<and> output_mode v' = output_mode v \<and>
      multicast_group v' = multicast_group v \<and> ivshmem_device v' = ivshmem_device v \<and>
      alsa_device v' = alsa_device v \<and> stream_name v' = stream_name v \<and>
      target_latency_ms v' = target_latency_ms v \<and> max_latency_ms v' = max_latency_ms v \<and>
      iface v' = iface v \<and> port v' = port v \<and> verbosity v' = verbosity v)"

definition same_step :: "event list \<times> vars step \<Rightarrow> event list \<times> vars step \<Rightarrow> bool" where
  "same_step x y =
     (fst x = fst y \<and>
      (case (snd x, snd y) of
         (Continue v, Continue v') \<Rightarrow> same_but_output v v'
       | (Exit n, Exit n') \<Rightarrow> n = n'
       | _ \<Rightarrow> False))"

section \<open>Concrete surroundings for the examples\<close>

text \<open>
  An operating system with one interface, \<^verbatim>\<open>lo\<close>, and backends on a world that counts
  the sends: every init function returns \<open>init_status\<close>, and the send with number \<open>k\<close>
  (from 0) returns \<open>-1\<close>, the others 0.
\<close>

definition test_os :: os_env where
  "test_os =
     \<lparr> inet_addr = (\<lambda>s. if s = ''127.0.0.1'' then 0x0100007F else INADDR_NONE),
       siocgifaddr = (\<lambda>s. if s = ''lo'' then Some 0x0100007F else None),
       if_nameindex = [''lo'', ''eth0''] \<rparr>"

definition test_backends :: "int \<Rightarrow> nat \<Rightarrow> nat backends" where
  "test_backends init_status k =
     \<lparr> pulse_output_init = (\<lambda>t m n w. (init_status, w)),
       alsa_output_init = (\<lambda>t d w. (init_status, w)),
       raw_output_init = (\<lambda>w. (init_status, w)),
       pulse_output_send = (\<lambda>w. (if w = k then - 1 else 0, Suc w)),
       alsa_output_send = (\<lambda>w. (if w = k then - 1 else 0, Suc w)),
       raw_output_send = (\<lambda>w. (if w = k then - 1 else 0, Suc w)),
       init_shmem = (\<lambda>d w. w),
       init_network = (\<lambda>m i p g w. w),
       rcv_shmem = (\<lambda>w. w),
       rcv_network = (\<lambda>w. w) \<rparr>"

text \<open>
  Backends that keep a record of what is done to the world: the world is the list of the
  functions applied to it, each with the arguments it was given, in order. Every init
  function returns \<open>init_status\<close>; a send function returns \<open>-1\<close> once the world holds at
  least \<open>k\<close> entries, and 0 before.
\<close>

definition probe_backends :: "int \<Rightarrow> nat \<Rightarrow> event list backends" where
  "probe_backends init_status k =
     \<lparr> pulse_output_init = (\<lambda>t m n w. (init_status, w @ [Call_pulse_output_init t m n])),
       alsa_output_init = (\<lambda>t d w. (init_status, w @ [Call_alsa_output_init t d])),
       raw_output_init = (\<lambda>w. (init_status, w @ [Call_raw_output_init])),
       pulse_output_send =
         (\<lambda>w. (if k \<le> length w then - 1 else 0, w @ [Call_send Pulse_output_send])),
       alsa_output_send =
         (\<lambda>w. (if k \<le> length w then - 1 else 0, w @ [Call_send Alsa_output_send])),
       raw_output_send =
         (\<lambda>w. (if k \<le> length w then - 1 else 0, w @ [Call_send Raw_output_send])),
       init_shmem = (\<lambda>d w. w @ [Call_init_shmem d]),
       init_network = (\<lambda>m i p g w. w @ [Call_init_network m i p g]),
       rcv_shmem = (\<lambda>w. w @ [Call_rcv Rcv_shmem]),
       rcv_network = (\<lambda>w. w @ [Call_rcv Rcv_network]) \<rparr>"

definition build_all :: build_config where
  "build_all = \<lparr> PULSEAUDIO_ENABLE = True, ALSA_ENABLE = True \<rparr>"

definition build_raw :: build_config where
  "build_raw = \<lparr> PULSEAUDIO_ENABLE = False, ALSA_ENABLE = False \<rparr>"

section \<open>Frames and their validation\<close>

text \<open>
  \<^verbatim>\<open>scream.c\<close> only calls the receive and send functions; frames, their validation and
  the delivery queue are described by the specification, and their code is not in
  \<^verbatim>\<open>scream.c\<close>. The definitions of this section and the next follow the specification.
\<close>

type_synonym byte = "8 word"

text \<open>
  Modelled from the spec: the format header of the wire format (section 6), which no
  source file declares: one byte for the sample rate code, one for the sample bits, one
  for the channel count, two for the channel mask.
\<close>

record format_header =
  sample_rate_code :: byte
  sample_bits :: byte
  channels :: byte
  channel_mask :: "byte \<times> byte"

text \<open>
  Modelled from the spec: the Frame of section 3, a format with a payload.
\<close>

record frame =
  format :: format_header
  payload :: "byte list"

text \<open>
  Modelled from the spec: the payload length of a Frame (section 3), the number of bytes
  of its payload.
\<close>

definition payload_len :: "frame \<Rightarrow> nat" where
  "payload_len f = length (payload f)"

text \<open>
  Modelled from the spec: the size of one sample frame, \<open>channels \<times> sample_bits / 8\<close>
  (sections 3 and 4.3).
\<close>

definition sample_frame_size :: "format_header \<Rightarrow> nat" where
  "sample_frame_size h = unat (channels h) * (unat (sample_bits h) div 8)"

text \<open>
  Modelled from the spec: the shared validation helper of section 4.3, which is not in
  \<^verbatim>\<open>scream.c\<close>. Given a raw header and a payload length, it rejects a frame whose channel
  count is outside 1 to 255, whose sample bits are not 8, 16, 24 or 32, or whose payload
  length is not a multiple of the sample frame size. The ranges are tested first, so that
  the frame size is not 0 when the length is divided by it.
\<close>

definition frame_valid :: "format_header \<Rightarrow> nat \<Rightarrow> bool" where
  "frame_valid h len =
     (1 \<le> unat (channels h) \<and> unat (channels h) \<le> 255 \<and>
      (unat (sample_bits h) = 8 \<or> unat (sample_bits h) = 16 \<or>
       unat (sample_bits h) = 24 \<or> unat (sample_bits h) = 32) \<and>
      len mod sample_frame_size h = 0)"

text \<open>
  Modelled from the spec: the Transport boundary of sections 3 and 4.3. A frame that the
  helper rejects is dropped, which is \<open>None\<close>, not an error; an accepted frame is passed
  on as it is.
\<close>

definition accept_frame :: "format_header \<Rightarrow> byte list \<Rightarrow> frame option" where
  "accept_frame h p =
     (if frame_valid h (length p) then Some \<lparr> format = h, payload = p \<rparr> else None)"

text \<open>
  Modelled from the spec: parsing one datagram (sections 4.1 and 6). A datagram shorter
  than the five bytes of the header is discarded; otherwise the first five bytes are the
  header, the rest is the payload, and the frame goes through the validation helper.
\<close>

definition parse_datagram :: "byte list \<Rightarrow> frame option" where
  "parse_datagram d =
     (case d of
        r # b # c # m0 # m1 # p \<Rightarrow>
          accept_frame \<lparr> sample_rate_code = r, sample_bits = b, channels = c,
                         channel_mask = (m0, m1) \<rparr> p
      | _ \<Rightarrow> None)"

text \<open>
  Modelled from the spec: \<^verbatim>\<open>receive()\<close> of the network receiver (section 4.1), on the
  datagrams that arrive, in their order. A discarded datagram makes the call try the next
  one; the call returns the first frame that is accepted, with the datagrams still to
  come. With no datagram left the call blocks, which is \<open>None\<close>.
\<close>

fun receive_network :: "byte list list \<Rightarrow> (frame \<times> byte list list) option" where
  "receive_network [] = None"
| "receive_network (d # ds) =
     (case parse_datagram d of
        Some f \<Rightarrow> Some (f, ds)
      | None \<Rightarrow> receive_network ds)"

section \<open>Delivery on a change of format\<close>

text \<open>
  Modelled from the spec: what the Sink sees of Delivery (sections 4.4 and 4.5): a
  notification of a reconfiguration, with the new format, or one Frame.
\<close>

datatype sink_event = Sink_reconfigure format_header | Sink_frame frame

text \<open>
  Modelled from the spec: the state of Latency-Bounded Delivery (sections 3 and 4.4): the
  Delivery Queue, oldest Frame first, the format of the previous Frame, and what the Sink
  has been given so far.
\<close>

record delivery =
  queue :: "frame list"
  previous_format :: "format_header option"
  sink_log :: "sink_event list"

text \<open>
  Modelled from the spec: the two points of section 4.4 that the specification leaves
  open, as parameters. The latency policy drops the oldest queued Frames; \<open>drops\<close> says
  how many it drops when a Frame comes in, counted on the queue with the new Frame at its
  end. A flush drains the queue; \<open>flush_to_sink\<close> says whether the drained Frames are
  handed to the Sink or discarded.
\<close>

record delivery_policy =
  drops :: "frame list \<Rightarrow> frame \<Rightarrow> nat"
  flush_to_sink :: bool

text \<open>Modelled from the spec: Delivery before the first Frame (section 4.4).\<close>

definition delivery_start :: delivery where
  "delivery_start = \<lparr> queue = [], previous_format = None, sink_log = [] \<rparr>"

text \<open>
  Modelled from the spec: the flush of section 4.4, which drains the whole queue at once,
  in FIFO order.
\<close>

definition flush :: "delivery_policy \<Rightarrow> delivery \<Rightarrow> delivery" where
  "flush pol d =
     d\<lparr> queue := [],
        sink_log := sink_log d @ (if flush_to_sink pol then map Sink_frame (queue d) else []) \<rparr>"

text \<open>
  Modelled from the spec: the notification of the Sink about a reconfiguration
  (sections 4.4 and 4.5).
\<close>

definition notify_reconfiguration :: "format_header \<Rightarrow> delivery \<Rightarrow> delivery" where
  "notify_reconfiguration h d = d\<lparr> sink_log := sink_log d @ [Sink_reconfigure h] \<rparr>"

text \<open>
  Modelled from the spec: Delivery on an incoming Frame (section 4.4). If the format of
  the Frame differs from that of the previous Frame, the queue is flushed and the Sink is
  notified, before the new Frame is queued. The first Frame has no previous Frame and
  causes no notification (the format change scenario of section 8 counts one
  reconfiguration for two formats). Then the Frame is put at the end of the queue and the
  latency policy drops from the front.
\<close>

definition on_frame :: "delivery_policy \<Rightarrow> delivery \<Rightarrow> frame \<Rightarrow> delivery" where
  "on_frame pol d f =
     (let d1 = (case previous_format d of
                  None \<Rightarrow> d
                | Some p \<Rightarrow>
                    if p \<noteq> format f then notify_reconfiguration (format f) (flush pol d)
                    else d)
      in d1\<lparr> queue := drop (drops pol (queue d1) f) (queue d1 @ [f]),
             previous_format := Some (format f) \<rparr>)"

text \<open>
  Modelled from the spec: handing the oldest queued Frame to the Sink; the dequeue order
  is strictly FIFO (section 4.4). With an empty queue nothing happens.
\<close>

definition dequeue :: "delivery \<Rightarrow> delivery" where
  "dequeue d =
     (case queue d of
        [] \<Rightarrow> d
      | f # q \<Rightarrow> d\<lparr> queue := q, sink_log := sink_log d @ [Sink_frame f] \<rparr>)"

text \<open>
  Modelled from the spec: a run of Delivery is a sequence of incoming Frames and of
  moments at which a Frame is handed to the Sink, in any order (section 4.4 does not fix
  when Delivery hands a Frame over).
\<close>

datatype delivery_op = Incoming frame | Hand_over

text \<open>
  Modelled from the spec: one step of such a run, an incoming Frame or a handing over
  (section 4.4).
\<close>

fun delivery_step :: "delivery_policy \<Rightarrow> delivery \<Rightarrow> delivery_op \<Rightarrow> delivery" where
  "delivery_step pol d (Incoming f) = on_frame pol d f"
| "delivery_step pol d Hand_over = dequeue d"

text \<open>
  Modelled from the spec: a whole run of Delivery, step after step; the single control
  loop of section 5 takes one step at a time.
\<close>

fun run_delivery :: "delivery_policy \<Rightarrow> delivery \<Rightarrow> delivery_op list \<Rightarrow> delivery" where
  "run_delivery pol d [] = d"
| "run_delivery pol d (x # xs) = run_delivery pol (delivery_step pol d x) xs"

text \<open>
  Reading the Sink's side. \<open>log_format\<close> is the format the Sink is in after a log: that of
  the last event. \<open>log_ordered\<close> says that the formats never mix: a Frame either is the
  first event the Sink sees or has the format the Sink is in, so that a Frame of another
  format only comes after a reconfiguration to its format.
\<close>

fun log_format :: "format_header option \<Rightarrow> sink_event list \<Rightarrow> format_header option" where
  "log_format cur [] = cur"
| "log_format cur (Sink_reconfigure h # es) = log_format (Some h) es"
| "log_format cur (Sink_frame f # es) = log_format (Some (format f)) es"

fun log_ordered :: "format_header option \<Rightarrow> sink_event list \<Rightarrow> bool" where
  "log_ordered cur [] = True"
| "log_ordered cur (Sink_reconfigure h # es) = log_ordered (Some h) es"
| "log_ordered cur (Sink_frame f # es) =
     ((cur = None \<or> cur = Some (format f)) \<and> log_ordered (Some (format f)) es)"

fun is_reconfigure :: "sink_event \<Rightarrow> bool" where
  "is_reconfigure (Sink_reconfigure _) = True"
| "is_reconfigure (Sink_frame _) = False"

text \<open>
  The incoming Frames of a run, and the number of Frames among them whose format differs
  from that of the Frame before.
\<close>

fun incoming :: "delivery_op list \<Rightarrow> frame list" where
  "incoming [] = []"
| "incoming (Incoming f # xs) = f # incoming xs"
| "incoming (Hand_over # xs) = incoming xs"

fun format_changes :: "format_header option \<Rightarrow> frame list \<Rightarrow> nat" where
  "format_changes prev [] = 0"
| "format_changes prev (f # fs) =
     (case prev of
        None \<Rightarrow> format_changes (Some (format f)) fs
      | Some p \<Rightarrow>
          (if p \<noteq> format f then 1 else 0) + format_changes (Some (format f)) fs)"

text \<open>Formats and frames for the examples: 16 bits, two channels, at two sample rates.\<close>

definition format_a :: format_header where
  "format_a = \<lparr> sample_rate_code = 129, sample_bits = 16, channels = 2, channel_mask = (3, 0) \<rparr>"

definition format_b :: format_header where
  "format_b = \<lparr> sample_rate_code = 1, sample_bits = 16, channels = 2, channel_mask = (3, 0) \<rparr>"

definition frame_a :: frame where
  "frame_a = \<lparr> format = format_a, payload = [1, 2, 3, 4] \<rparr>"

definition frame_b :: frame where
  "frame_b = \<lparr> format = format_b, payload = [5, 6, 7, 8] \<rparr>"

definition keep_all :: delivery_policy where
  "keep_all = \<lparr> drops = (\<lambda>q f. 0), flush_to_sink = True \<rparr>"

section \<open>The events of option parsing\<close>

lemma usage_lines_prints: "list_all is_print (usage_lines arg0)"
  by (simp add: usage_lines_def)
lemma error_exit_prints: "list_all is_print (error_exit os)"
  by (auto simp: error_exit_def list_all_iff split: option.splits)
lemma get_interface_prints: "list_all is_print (fst (get_interface os name))"
  by (simp add: get_interface_def Let_def error_exit_prints split: option.splits)

lemma show_usage_prints: "list_all is_print (fst (show_usage arg0))"
  by (simp add: show_usage_def usage_lines_prints)

lemma opt_case_i:
  "opt_case os arg0 v (CHR ''i'', x) =
     (case get_interface os x of
        (ev, Continue a) \<Rightarrow> (ev, Continue (v\<lparr>iface := a\<rparr>))
      | (ev, Exit n) \<Rightarrow> (ev, Exit n))"
  by (simp add: opt_case_def)

lemma opt_case_p:
  "opt_case os arg0 v (CHR ''p'', x) =
     (if (word_of_int (atoi x) :: uint16_t) = 0 then show_usage arg0
      else ([], Continue (v\<lparr>port := word_of_int (atoi x)\<rparr>)))"
  by (simp add: opt_case_def Let_def)

lemma opt_case_u: "opt_case os arg0 v (CHR ''u'', x) = ([], Continue (v\<lparr>receiver_mode := Unicast\<rparr>))"
  by (simp add: opt_case_def)

lemma opt_case_g: "opt_case os arg0 v (CHR ''g'', x) = ([], Continue (v\<lparr>multicast_group := Some x\<rparr>))"
  by (simp add: opt_case_def)

lemma opt_case_m:
  "opt_case os arg0 v (CHR ''m'', x) =
     ([], Continue (v\<lparr>receiver_mode := SharedMem, ivshmem_device := Some x\<rparr>))"
  by (simp add: opt_case_def)

lemma opt_case_o:
  "opt_case os arg0 v (CHR ''o'', x) =
     ([], Continue
        (if x = ''pulse'' then v\<lparr>output_arg := Some x, output_mode := Pulseaudio\<rparr>
         else if x = ''alsa'' then v\<lparr>output_arg := Some x, output_mode := Alsa\<rparr>
         else if x = ''raw'' then v\<lparr>output_arg := Some x, output_mode := Raw\<rparr>
         else v\<lparr>output_arg := Some x\<rparr>))"
  by (simp add: opt_case_def Let_def)

lemma opt_case_d: "opt_case os arg0 v (CHR ''d'', x) = ([], Continue (v\<lparr>alsa_device := x\<rparr>))"
  by (simp add: opt_case_def)

lemma opt_case_n: "opt_case os arg0 v (CHR ''n'', x) = ([], Continue (v\<lparr>stream_name := x\<rparr>))"
  by (simp add: opt_case_def)

lemma opt_case_t:
  "opt_case os arg0 v (CHR ''t'', x) =
     (if atoi x < 0 then show_usage arg0
      else ([], Continue (v\<lparr>target_latency_ms := atoi x\<rparr>)))"
  by (simp add: opt_case_def Let_def)

lemma opt_case_l:
  "opt_case os arg0 v (CHR ''l'', x) =
     (if atoi x < 0 then show_usage arg0
      else ([], Continue (v\<lparr>max_latency_ms := atoi x\<rparr>)))"
  by (simp add: opt_case_def Let_def)

lemma opt_case_v: "opt_case os arg0 v (CHR ''v'', x) = ([], Continue (v\<lparr>verbosity := verbosity v + 1\<rparr>))"
  by (simp add: opt_case_def)

lemma opt_case_other:
  "c \<notin> set ''ipugmodntlv'' \<Longrightarrow> opt_case os arg0 v (c, x) = show_usage arg0"
  by (simp add: opt_case_def)

lemma opt_char_cases:
  obtains "c = CHR ''i''" | "c = CHR ''p''" | "c = CHR ''u''" | "c = CHR ''g''" | "c = CHR ''m''"
    | "c = CHR ''o''" | "c = CHR ''d''" | "c = CHR ''n''" | "c = CHR ''t''" | "c = CHR ''l''"
    | "c = CHR ''v''" | "c \<notin> set ''ipugmodntlv''"
  by auto

lemmas opt_case_simps =
  opt_case_i opt_case_p opt_case_u opt_case_g opt_case_m opt_case_o opt_case_d opt_case_n
  opt_case_t opt_case_l opt_case_v opt_case_other

lemma opt_case_prints: "list_all is_print (fst (opt_case os arg0 v r))"
proof -
  obtain c x where r: "r = (c, x)" by (cases r)
  have g: "list_all is_print (fst (get_interface os x))"
    by (rule get_interface_prints)
  have u: "list_all is_print (fst (show_usage arg0 :: event list \<times> vars step))"
    by (rule show_usage_prints)
  show ?thesis
    unfolding r using g u
    by (cases c rule: opt_char_cases)
       (auto simp: opt_case_simps split: prod.splits step.splits option.splits)
qed

lemma getopt_loop_prints: "list_all is_print (fst (getopt_loop os arg0 rs v))"
proof (induction rs arbitrary: v)
  case Nil
  show ?case by simp
next
  case (Cons r rs)
  obtain ev res where oc: "opt_case os arg0 v r = (ev, res)"
    by (cases "opt_case os arg0 v r")
  have p: "list_all is_print ev"
    using opt_case_prints [of os arg0 v r] oc by simp
  show ?case
  proof (cases res)
    case (Continue v')
    obtain ev' res' where gl: "getopt_loop os arg0 rs v' = (ev', res')"
      by (cases "getopt_loop os arg0 rs v'")
    have "list_all is_print ev'"
      using Cons.IH [of v'] gl by simp
    then show ?thesis using oc Continue gl p by simp
  next
    case (Exit n)
    then show ?thesis using oc p by simp
  qed
qed

lemma parse_options_prints: "list_all is_print (fst (parse_options b os arg0 opts operands))"
proof -
  obtain ev res where gl: "getopt_loop os arg0 opts (init_vars b) = (ev, res)"
    by (cases "getopt_loop os arg0 opts (init_vars b)")
  have p: "list_all is_print ev"
    using getopt_loop_prints [of os arg0 opts "init_vars b"] gl by simp
  show ?thesis
    using gl p
    by (cases res) (simp_all add: parse_options_def show_usage_def usage_lines_prints)
qed

lemma prints_no_loop_call: "list_all is_print evs \<Longrightarrow> filter is_loop_call evs = []"
proof (induction evs)
  case Nil
  show ?case by simp
next
  case (Cons e es)
  then show ?case by (cases e) simp_all
qed

lemma prints_no_output_init: "list_all is_print evs \<Longrightarrow> filter is_output_init evs = []"
proof (induction evs)
  case Nil
  show ?case by simp
next
  case (Cons e es)
  then show ?case by (cases e) simp_all
qed

lemma prints_no_receiver_init: "list_all is_print evs \<Longrightarrow> filter is_receiver_init evs = []"
proof (induction evs)
  case Nil
  show ?case by simp
next
  case (Cons e es)
  then show ?case by (cases e) simp_all
qed

lemma verbose_prints: "list_all is_print (verbose v fmt args)"
  by (simp add: verbose_def)

section \<open>The loop\<close>

lemma send_status_Suc:
  "send_status be r s (Suc k) w = send_status be r s k (snd (call_send be s (call_rcv be r w)))"
  by (simp add: send_status_def)

lemma send_status_0: "send_status be r s 0 w = fst (call_send be s (call_rcv be r w))"
  by (simp add: send_status_def)

lemma driver_loop_running:
  "(\<forall>k<n. send_status be r s k w = 0) \<Longrightarrow>
   driver_loop be r s n w = (iterations r s n, Running, world_after be r s n w)"
proof (induction n arbitrary: w)
  case 0
  show ?case by (simp add: iterations_def)
next
  case (Suc n)
  obtain st w' where sw: "call_send be s (call_rcv be r w) = (st, w')"
    by (cases "call_send be s (call_rcv be r w)")
  from Suc.prems have "send_status be r s 0 w = 0" by blast
  with sw have st: "st = 0" by (simp add: send_status_0)
  have "\<forall>k<n. send_status be r s k w' = 0"
  proof (intro allI impI)
    fix k assume "k < n"
    then have "send_status be r s (Suc k) w = 0" using Suc.prems by simp
    then show "send_status be r s k w' = 0" using sw by (simp add: send_status_Suc)
  qed
  then have "driver_loop be r s n w' = (iterations r s n, Running, world_after be r s n w')"
    by (rule Suc.IH)
  then show ?case using sw st by (simp add: iterations_def)
qed

lemma driver_loop_exit:
  "(\<forall>k<m. send_status be r s k w = 0) \<Longrightarrow> send_status be r s m w \<noteq> 0 \<Longrightarrow> m < n \<Longrightarrow>
   driver_loop be r s n w = (iterations r s (Suc m), Exited 1, world_after be r s (Suc m) w)"
proof (induction m arbitrary: w n)
  case 0
  then obtain n' where n: "n = Suc n'" by (cases n) auto
  obtain st w' where sw: "call_send be s (call_rcv be r w) = (st, w')"
    by (cases "call_send be s (call_rcv be r w)")
  with 0 have "st \<noteq> 0" by (simp add: send_status_0)
  then show ?case using sw n by (simp add: iterations_def)
next
  case (Suc m)
  then obtain n' where n: "n = Suc n'" and mn: "m < n'" by (cases n) auto
  obtain st w' where sw: "call_send be s (call_rcv be r w) = (st, w')"
    by (cases "call_send be s (call_rcv be r w)")
  from Suc.prems(1) have "send_status be r s 0 w = 0" by blast
  with sw have st: "st = 0" by (simp add: send_status_0)
  have z: "\<forall>k<m. send_status be r s k w' = 0"
  proof (intro allI impI)
    fix k assume "k < m"
    then have "send_status be r s (Suc k) w = 0" using Suc.prems(1) by simp
    then show "send_status be r s k w' = 0" using sw by (simp add: send_status_Suc)
  qed
  have nz: "send_status be r s m w' \<noteq> 0"
    using Suc.prems(2) sw by (simp add: send_status_Suc)
  have "driver_loop be r s n' w' = (iterations r s (Suc m), Exited 1, world_after be r s (Suc m) w')"
    using Suc.IH [OF z nz mn] .
  then show ?case using sw st n by (simp add: iterations_def)
qed

lemma first_nonzero_status:
  assumes "\<not> (\<forall>k<n. send_status be r s k w = 0)"
  shows "\<exists>m<n. (\<forall>k<m. send_status be r s k w = 0) \<and> send_status be r s m w \<noteq> 0"
proof -
  define P where "P m \<longleftrightarrow> send_status be r s m w \<noteq> 0" for m
  from assms obtain k where k: "k < n" "P k" by (auto simp: P_def)
  define m where "m = (LEAST m. P m)"
  have pm: "P m" unfolding m_def using k(2) by (rule LeastI)
  have mk: "m \<le> k" unfolding m_def using k(2) by (rule Least_le)
  have np: "\<forall>j<m. \<not> P j" unfolding m_def using not_less_Least by blast
  have mn: "m < n" using mk k(1) by simp
  have "m < n \<and> (\<forall>k<m. send_status be r s k w = 0) \<and> send_status be r s m w \<noteq> 0"
    using mn np pm by (simp add: P_def)
  then show ?thesis by (rule exI [of _ m])
qed

lemma driver_loop_cases:
  obtains (running) "driver_loop be r s n w = (iterations r s n, Running, world_after be r s n w)"
        | (exited) m where "m < n" "send_status be r s m w \<noteq> 0"
            "driver_loop be r s n w = (iterations r s (Suc m), Exited 1, world_after be r s (Suc m) w)"
proof (cases "\<forall>k<n. send_status be r s k w = 0")
  case True
  then have "driver_loop be r s n w = (iterations r s n, Running, world_after be r s n w)"
    by (rule driver_loop_running)
  then show ?thesis by (rule running)
next
  case False
  then have "\<exists>m<n. (\<forall>k<m. send_status be r s k w = 0) \<and> send_status be r s m w \<noteq> 0"
    by (rule first_nonzero_status)
  then obtain m where m: "m < n" "\<forall>k<m. send_status be r s k w = 0" "send_status be r s m w \<noteq> 0"
    by auto
  have "driver_loop be r s n w = (iterations r s (Suc m), Exited 1, world_after be r s (Suc m) w)"
    using m(2) m(3) m(1) by (rule driver_loop_exit)
  with m(1) m(3) show ?thesis by (rule exited)
qed

lemma driver_loop_outcome:
  "fst (snd (driver_loop be r s n w)) = Running \<or>
   fst (snd (driver_loop be r s n w)) = Exited 1 \<and> (\<exists>m<n. send_status be r s m w \<noteq> 0)"
proof (cases rule: driver_loop_cases [of be r s n w])
  case running
  then show ?thesis by simp
next
  case (exited m)
  have "\<exists>m<n. send_status be r s m w \<noteq> 0"
    using exited(1) exited(2) by (intro exI [of _ m] conjI)
  then show ?thesis using exited(3) by simp
qed

lemma driver_loop_events:
  "\<exists>k\<le>n. fst (driver_loop be r s n w) = iterations r s k"
proof (cases rule: driver_loop_cases [of be r s n w])
  case running
  then have "n \<le> n \<and> fst (driver_loop be r s n w) = iterations r s n" by simp
  then show ?thesis by (rule exI [of _ n])
next
  case (exited m)
  then have "Suc m \<le> n \<and> fst (driver_loop be r s n w) = iterations r s (Suc m)" by simp
  then show ?thesis by (rule exI [of _ "Suc m"])
qed

lemma iterations_loop_calls: "filter is_loop_call (iterations r s k) = iterations r s k"
  by (induction k) (simp_all add: iterations_def)

lemma iterations_no_output_init: "filter is_output_init (iterations r s k) = []"
  by (induction k) (simp_all add: iterations_def)

lemma iterations_no_receiver_init: "filter is_receiver_init (iterations r s k) = []"
  by (induction k) (simp_all add: iterations_def)

section \<open>The parts of main\<close>

lemma main_of_run:
  "main b os be arg0 opts operands n w =
     (fst (main_run b os be arg0 opts operands n w),
      fst (snd (main_run b os be arg0 opts operands n w)))"
  by (simp add: main_def split: prod.splits)

lemma main_run_parse_exit:
  "parse_options b os arg0 opts operands = (ev, Exit c) \<Longrightarrow>
   main_run b os be arg0 opts operands n w = (ev, Exited c, w)"
  by (simp add: main_run_def)

lemma main_run_init_exit:
  "parse_options b os arg0 opts operands = (ev, Continue v) \<Longrightarrow>
   init_output b be arg0 v w = (ev1, Exit c, w1) \<Longrightarrow>
   main_run b os be arg0 opts operands n w = (ev @ [Call_setpriority (- 11)] @ ev1, Exited c, w1)"
  by (simp add: main_run_def)

lemma main_run_loop:
  "parse_options b os arg0 opts operands = (ev, Continue v) \<Longrightarrow>
   init_output b be arg0 v w = (ev1, Continue sfn, w1) \<Longrightarrow>
   init_receiver be v w1 = (ev2, rfn, w2) \<Longrightarrow>
   main_run b os be arg0 opts operands n w =
     (ev @ [Call_setpriority (- 11)] @ ev1 @ ev2 @ fst (driver_loop be rfn sfn n w2),
      fst (snd (driver_loop be rfn sfn n w2)), snd (snd (driver_loop be rfn sfn n w2)))"
  by (simp add: main_run_def split: prod.splits)

lemma main_parse_exit:
  "parse_options b os arg0 opts operands = (ev, Exit c) \<Longrightarrow>
   main b os be arg0 opts operands n w = (ev, Exited c)"
  by (simp add: main_of_run main_run_parse_exit)

lemma main_init_exit:
  "parse_options b os arg0 opts operands = (ev, Continue v) \<Longrightarrow>
   init_output b be arg0 v w = (ev1, Exit c, w1) \<Longrightarrow>
   main b os be arg0 opts operands n w = (ev @ [Call_setpriority (- 11)] @ ev1, Exited c)"
  by (simp add: main_of_run main_run_init_exit)

lemma main_loop:
  "parse_options b os arg0 opts operands = (ev, Continue v) \<Longrightarrow>
   init_output b be arg0 v w = (ev1, Continue sfn, w1) \<Longrightarrow>
   init_receiver be v w1 = (ev2, rfn, w2) \<Longrightarrow>
   main b os be arg0 opts operands n w =
     (ev @ [Call_setpriority (- 11)] @ ev1 @ ev2 @ fst (driver_loop be rfn sfn n w2),
      fst (snd (driver_loop be rfn sfn n w2)))"
  by (simp add: main_of_run main_run_loop)

lemma init_output_compiled_out:
  "\<not> backend_compiled b (output_mode v) \<Longrightarrow>
   init_output b be arg0 v w =
     ([Fprintf_stderr (compiled_out_message (output_mode v)) [Str arg0]], Exit 1, w)"
  by (cases "output_mode v")
     (simp_all add: backend_compiled_def init_output_def compiled_out_message_def)

lemma init_output_failure:
  "selected_init_status b be v w = Some r \<Longrightarrow> r \<noteq> 0 \<Longrightarrow>
   \<exists>vb. list_all is_print vb \<and>
     init_output b be arg0 v w =
       (vb @ [selected_init_call v], Exit 1, selected_init_world b be v w)"
  by (cases "output_mode v")
     (auto simp: selected_init_status_def init_output_def selected_init_call_def verbose_prints
                 selected_init_world_def
           split: if_splits prod.splits)

lemma init_output_success:
  "selected_init_status b be v w = Some 0 \<Longrightarrow>
   \<exists>vb. list_all is_print vb \<and>
     init_output b be arg0 v w =
       (vb @ [selected_init_call v], Continue (selected_send_fn v), selected_init_world b be v w)"
  by (cases "output_mode v")
     (auto simp: selected_init_status_def init_output_def selected_init_call_def selected_send_fn_def
                 verbose_prints selected_init_world_def
           split: if_splits prod.splits)

lemma selected_init_status_compiled:
  "(selected_init_status b be v w = None) = (\<not> backend_compiled b (output_mode v))"
  by (cases "output_mode v") (simp_all add: selected_init_status_def backend_compiled_def)

lemma init_output_Continue:
  "init_output b be arg0 v w = (ev1, Continue sfn, w1) \<Longrightarrow>
   selected_init_status b be v w = Some 0 \<and> sfn = selected_send_fn v \<and>
   w1 = selected_init_world b be v w \<and>
   (\<exists>vb. list_all is_print vb \<and> ev1 = vb @ [selected_init_call v])"
  by (cases "output_mode v")
     (auto simp: selected_init_status_def init_output_def selected_init_call_def selected_send_fn_def
                 verbose_prints selected_init_world_def
           split: if_splits prod.splits)

lemma init_receiver_selected:
  "\<exists>vb. list_all is_print vb \<and>
     init_receiver be v w =
       (vb @ [selected_receiver_init v], selected_rcv_fn v, selected_receiver_world be v w)"
  by (cases "receiver_mode v")
     (simp_all add: init_receiver_def selected_receiver_init_def selected_rcv_fn_def verbose_prints
        selected_receiver_world_def)

lemma selected_init_call_is_output_init: "is_output_init (selected_init_call v)"
  by (cases "output_mode v") (simp_all add: selected_init_call_def)

lemma selected_init_call_kinds:
  "\<not> is_loop_call (selected_init_call v)" "\<not> is_receiver_init (selected_init_call v)"
  by (cases "output_mode v"; simp add: selected_init_call_def)+

lemma selected_receiver_init_kinds:
  "is_receiver_init (selected_receiver_init v)" "\<not> is_loop_call (selected_receiver_init v)"
  "\<not> is_output_init (selected_receiver_init v)"
  by (simp_all add: selected_receiver_init_def)

text \<open>A call through a function pointer applies the function that the pointer names.\<close>

lemma call_dispatch:
  "call_rcv be Rcv_shmem = rcv_shmem be" "call_rcv be Rcv_network = rcv_network be"
  "call_send be Pulse_output_send = pulse_output_send be"
  "call_send be Alsa_output_send = alsa_output_send be"
  "call_send be Raw_output_send = raw_output_send be"
  by (simp_all add: fun_eq_iff)

lemma world_after_Suc:
  "world_after be r s (Suc k) w =
     snd (call_send be s (call_rcv be r (world_after be r s k w)))"
  by (induction k arbitrary: w) simp_all

lemma verbose_line_prints:
  "list_all is_print (output_verbose_line v)" "list_all is_print (receiver_verbose_line v)"
  by (cases "output_mode v"; simp add: output_verbose_line_def receiver_verbose_line_def verbose_prints)+

lemma init_output_failure_line:
  "selected_init_status b be v w = Some r \<Longrightarrow> r \<noteq> 0 \<Longrightarrow>
   init_output b be arg0 v w =
     (output_verbose_line v @ [selected_init_call v], Exit 1, selected_init_world b be v w)"
  by (cases "output_mode v")
     (auto simp: selected_init_status_def init_output_def selected_init_call_def
                 selected_init_world_def output_verbose_line_def
           split: if_splits prod.splits)

lemma init_output_success_line:
  "selected_init_status b be v w = Some 0 \<Longrightarrow>
   init_output b be arg0 v w =
     (output_verbose_line v @ [selected_init_call v], Continue (selected_send_fn v),
      selected_init_world b be v w)"
  by (cases "output_mode v")
     (auto simp: selected_init_status_def init_output_def selected_init_call_def selected_send_fn_def
                 selected_init_world_def output_verbose_line_def
           split: if_splits prod.splits)

lemma init_receiver_line:
  "init_receiver be v w =
     (receiver_verbose_line v @ [selected_receiver_init v], selected_rcv_fn v,
      selected_receiver_world be v w)"
  by (cases "receiver_mode v")
     (simp_all add: init_receiver_def selected_receiver_init_def selected_rcv_fn_def
        selected_receiver_world_def receiver_verbose_line_def)

section \<open>Evaluating the examples\<close>

lemma test_world_after: "world_after (test_backends i j) r s k w = w + k"
proof (induction k arbitrary: w)
  case 0
  show ?case by simp
next
  case (Suc k)
  have "snd (call_send (test_backends i j) s (call_rcv (test_backends i j) r w)) = Suc w"
    by (cases s; cases r) (simp_all add: test_backends_def)
  then show ?case using Suc.IH by simp
qed

lemma test_send_status:
  "send_status (test_backends i j) r s k w = (if w + k = j then - 1 else 0)"
proof -
  have "fst (call_send (test_backends i j) s (call_rcv (test_backends i j) r w')) =
        (if w' = j then - 1 else 0)" for w'
    by (cases s; cases r) (simp_all add: test_backends_def)
  then show ?thesis by (simp add: send_status_def test_world_after)
qed

lemma parse_no_options: "parse_options b os arg0 [] [] = ([], Continue (init_vars b))"
  by (simp add: parse_options_def)

lemma init_vars_build_all:
  "init_vars build_all =
     \<lparr> receiver_mode = Multicast, output_mode = Pulseaudio, multicast_group = None,
       ivshmem_device = None, output_arg = None, alsa_device = ''default'',
       stream_name = ''Audio'', target_latency_ms = 50, max_latency_ms = 200,
       iface = 0, port = 4010, verbosity = 0 \<rparr>"
  by (simp add: init_vars_def default_output_mode_def build_all_def INADDR_ANY_def DEFAULT_PORT_def)

lemma init_vars_build_raw:
  "init_vars build_raw =
     \<lparr> receiver_mode = Multicast, output_mode = Raw, multicast_group = None,
       ivshmem_device = None, output_arg = None, alsa_device = ''default'',
       stream_name = ''Audio'', target_latency_ms = 50, max_latency_ms = 200,
       iface = 0, port = 4010, verbosity = 0 \<rparr>"
  by (simp add: init_vars_def default_output_mode_def build_raw_def INADDR_ANY_def DEFAULT_PORT_def)

lemma build_flags:
  "PULSEAUDIO_ENABLE build_all" "ALSA_ENABLE build_all"
  "\<not> PULSEAUDIO_ENABLE build_raw" "\<not> ALSA_ENABLE build_raw"
  by (simp_all add: build_all_def build_raw_def)

lemma test_init_output_pulse:
  "init_output build_all (test_backends 0 j) ''scream'' (init_vars build_all) 0 =
     ([Call_pulse_output_init 50 200 ''Audio''], Continue Pulse_output_send, 0)"
  by (simp add: init_output_def init_vars_build_all build_flags test_backends_def verbose_def)

lemma test_init_receiver_multicast:
  "init_receiver (test_backends i j) (init_vars build_all) 0 =
     ([Call_init_network Multicast 0 4010 None], Rcv_network, 0)"
  by (simp add: init_receiver_def init_vars_build_all test_backends_def verbose_def)

lemma probe_init_output_pulse:
  "init_output build_all (probe_backends 0 j) ''scream'' (init_vars build_all) [] =
     ([Call_pulse_output_init 50 200 ''Audio''], Continue Pulse_output_send,
      [Call_pulse_output_init 50 200 ''Audio''])"
  by (simp add: init_output_def init_vars_build_all build_flags probe_backends_def verbose_def)

lemma probe_init_receiver_multicast:
  "init_receiver (probe_backends i j) (init_vars build_all) w =
     ([Call_init_network Multicast 0 4010 None], Rcv_network,
      w @ [Call_init_network Multicast 0 4010 None])"
  by (simp add: init_receiver_def init_vars_build_all probe_backends_def verbose_def)

section \<open>The driver loop\<close>

text \<open>
  Claim C1. In every run that reaches the driver loop, each iteration applies the selected
  receive function to the world and then the selected send function to the world that the
  receive function leaves; a call through one of the two function pointers applies the
  function of that name. While every send returns 0 the loop goes on: after \<open>n\<close> such
  iterations the run is still \<open>Running\<close> and has made exactly \<open>n\<close> pairs of calls. The
  first send that returns a status other than 0, in iteration \<open>m\<close>, ends the process with
  exit status 1 right after \<open>m + 1\<close> pairs of calls. A run that has left the loop has exit
  status 1 and a send that returned a status other than 0: the loop has no other exit. The
  two functions are the ones that the modes of the command line select, and the loop starts
  in the world that the two initialisations leave.
\<close>

theorem driver_loop_iterations:
  assumes "parse_options b os arg0 opts operands = (ev, Continue v)"
    and "init_output b be arg0 v w = (ev1, Continue sfn, w1)"
    and "init_receiver be v w1 = (ev2, rfn, w2)"
  shows "call_rcv be Rcv_shmem = rcv_shmem be \<and> call_rcv be Rcv_network = rcv_network be \<and>
         call_send be Pulse_output_send = pulse_output_send be \<and>
         call_send be Alsa_output_send = alsa_output_send be \<and>
         call_send be Raw_output_send = raw_output_send be \<and>
         world_after be rfn sfn 0 w2 = w2 \<and>
         (\<forall>k. world_after be rfn sfn (Suc k) w2 =
                snd (call_send be sfn (call_rcv be rfn (world_after be rfn sfn k w2))) \<and>
              send_status be rfn sfn k w2 =
                fst (call_send be sfn (call_rcv be rfn (world_after be rfn sfn k w2)))) \<and>
         ((\<forall>k<n. send_status be rfn sfn k w2 = 0) \<longrightarrow>
            main_run b os be arg0 opts operands n w =
              (ev @ [Call_setpriority (- 11)] @ ev1 @ ev2 @ iterations rfn sfn n, Running,
               world_after be rfn sfn n w2)) \<and>
         (\<forall>m<n. (\<forall>k<m. send_status be rfn sfn k w2 = 0) \<and> send_status be rfn sfn m w2 \<noteq> 0 \<longrightarrow>
            main_run b os be arg0 opts operands n w =
              (ev @ [Call_setpriority (- 11)] @ ev1 @ ev2 @ iterations rfn sfn (Suc m), Exited 1,
               world_after be rfn sfn (Suc m) w2)) \<and>
         (snd (main b os be arg0 opts operands n w) = Running \<or>
          snd (main b os be arg0 opts operands n w) = Exited 1 \<and>
          (\<exists>m<n. send_status be rfn sfn m w2 \<noteq> 0)) \<and>
         rfn = selected_rcv_fn v \<and> sfn = selected_send_fn v \<and>
         w2 = selected_receiver_world be v (selected_init_world b be v w)"
proof -
  have m: "main_run b os be arg0 opts operands n w =
     (ev @ [Call_setpriority (- 11)] @ ev1 @ ev2 @ fst (driver_loop be rfn sfn n w2),
      fst (snd (driver_loop be rfn sfn n w2)), snd (snd (driver_loop be rfn sfn n w2)))"
    using assms by (rule main_run_loop)
  have d: "call_rcv be Rcv_shmem = rcv_shmem be \<and> call_rcv be Rcv_network = rcv_network be \<and>
         call_send be Pulse_output_send = pulse_output_send be \<and>
         call_send be Alsa_output_send = alsa_output_send be \<and>
         call_send be Raw_output_send = raw_output_send be"
    by (simp add: call_dispatch)
  have st: "\<forall>k. world_after be rfn sfn (Suc k) w2 =
                snd (call_send be sfn (call_rcv be rfn (world_after be rfn sfn k w2))) \<and>
              send_status be rfn sfn k w2 =
                fst (call_send be sfn (call_rcv be rfn (world_after be rfn sfn k w2)))"
    by (simp add: world_after_Suc send_status_def del: world_after.simps)
  have a: "(\<forall>k<n. send_status be rfn sfn k w2 = 0) \<longrightarrow>
            main_run b os be arg0 opts operands n w =
              (ev @ [Call_setpriority (- 11)] @ ev1 @ ev2 @ iterations rfn sfn n, Running,
               world_after be rfn sfn n w2)"
    by (simp add: m driver_loop_running)
  have b: "\<forall>m<n. (\<forall>k<m. send_status be rfn sfn k w2 = 0) \<and> send_status be rfn sfn m w2 \<noteq> 0 \<longrightarrow>
            main_run b os be arg0 opts operands n w =
              (ev @ [Call_setpriority (- 11)] @ ev1 @ ev2 @ iterations rfn sfn (Suc m), Exited 1,
               world_after be rfn sfn (Suc m) w2)"
  proof (intro allI impI)
    fix j assume j: "j < n"
      "(\<forall>k<j. send_status be rfn sfn k w2 = 0) \<and> send_status be rfn sfn j w2 \<noteq> 0"
    from j(2) have z: "\<forall>k<j. send_status be rfn sfn k w2 = 0"
      and nz: "send_status be rfn sfn j w2 \<noteq> 0" by simp_all
    have "driver_loop be rfn sfn n w2 =
            (iterations rfn sfn (Suc j), Exited 1, world_after be rfn sfn (Suc j) w2)"
      using z nz j(1) by (rule driver_loop_exit)
    then show "main_run b os be arg0 opts operands n w =
              (ev @ [Call_setpriority (- 11)] @ ev1 @ ev2 @ iterations rfn sfn (Suc j), Exited 1,
               world_after be rfn sfn (Suc j) w2)"
      by (simp add: m del: world_after.simps)
  qed
  have c: "snd (main b os be arg0 opts operands n w) = Running \<or>
          snd (main b os be arg0 opts operands n w) = Exited 1 \<and>
          (\<exists>m<n. send_status be rfn sfn m w2 \<noteq> 0)"
    using driver_loop_outcome [of be rfn sfn n w2] by (simp add: main_of_run m)
  have w1: "w1 = selected_init_world b be v w" and s: "sfn = selected_send_fn v"
    using init_output_Continue [OF assms(2)] by simp_all
  have r: "rfn = selected_rcv_fn v" and w2: "w2 = selected_receiver_world be v w1"
    using init_receiver_selected [of be v w1] assms(3) by auto
  have w0: "world_after be rfn sfn 0 w2 = w2" by simp
  from w2 w1 have ww: "w2 = selected_receiver_world be v (selected_init_world b be v w)" by simp
  from d w0 st a b c r s ww show ?thesis by (intro conjI) simp_all
qed

theorem driver_loop_iterations_witness:
  "parse_options build_all test_os ''scream'' [] [] = ([], Continue (init_vars build_all)) \<and>
   init_output build_all (probe_backends 0 5) ''scream'' (init_vars build_all) [] =
     ([Call_pulse_output_init 50 200 ''Audio''], Continue Pulse_output_send,
      [Call_pulse_output_init 50 200 ''Audio'']) \<and>
   init_receiver (probe_backends 0 5) (init_vars build_all) [Call_pulse_output_init 50 200 ''Audio''] =
     ([Call_init_network Multicast 0 4010 None], Rcv_network,
      [Call_pulse_output_init 50 200 ''Audio'', Call_init_network Multicast 0 4010 None]) \<and>
   send_status (probe_backends 0 5) Rcv_network Pulse_output_send 0
     [Call_pulse_output_init 50 200 ''Audio'', Call_init_network Multicast 0 4010 None] = 0 \<and>
   send_status (probe_backends 0 5) Rcv_network Pulse_output_send 1
     [Call_pulse_output_init 50 200 ''Audio'', Call_init_network Multicast 0 4010 None] \<noteq> 0 \<and>
   main_run build_all test_os (probe_backends 0 5) ''scream'' [] [] 1 [] =
     ([Call_setpriority (- 11), Call_pulse_output_init 50 200 ''Audio'',
       Call_init_network Multicast 0 4010 None,
       Call_rcv Rcv_network, Call_send Pulse_output_send], Running,
      [Call_pulse_output_init 50 200 ''Audio'', Call_init_network Multicast 0 4010 None,
       Call_rcv Rcv_network, Call_send Pulse_output_send]) \<and>
   main_run build_all test_os (probe_backends 0 5) ''scream'' [] [] 7 [] =
     ([Call_setpriority (- 11), Call_pulse_output_init 50 200 ''Audio'',
       Call_init_network Multicast 0 4010 None,
       Call_rcv Rcv_network, Call_send Pulse_output_send,
       Call_rcv Rcv_network, Call_send Pulse_output_send], Exited 1,
      [Call_pulse_output_init 50 200 ''Audio'', Call_init_network Multicast 0 4010 None,
       Call_rcv Rcv_network, Call_send Pulse_output_send,
       Call_rcv Rcv_network, Call_send Pulse_output_send])"
proof -
  let ?be = "probe_backends 0 5"
  let ?w2 = "[Call_pulse_output_init 50 200 ''Audio'', Call_init_network Multicast 0 4010 None]"
  have h3: "init_receiver ?be (init_vars build_all) [Call_pulse_output_init 50 200 ''Audio''] =
     ([Call_init_network Multicast 0 4010 None], Rcv_network, ?w2)"
    by (simp add: probe_init_receiver_multicast)
  note h = parse_no_options [of build_all test_os "''scream''"]
    probe_init_output_pulse [of 5] h3
  note t = driver_loop_iterations [OF h]
  have wa1: "world_after ?be Rcv_network Pulse_output_send (Suc 0) ?w2 =
      ?w2 @ [Call_rcv Rcv_network, Call_send Pulse_output_send]"
    by (simp add: probe_backends_def)
  have wa2: "world_after ?be Rcv_network Pulse_output_send (Suc (Suc 0)) ?w2 =
      ?w2 @ [Call_rcv Rcv_network, Call_send Pulse_output_send,
             Call_rcv Rcv_network, Call_send Pulse_output_send]"
    by (simp add: probe_backends_def)
  have s0: "send_status ?be Rcv_network Pulse_output_send 0 ?w2 = 0"
    by (simp add: send_status_def probe_backends_def)
  have s1: "send_status ?be Rcv_network Pulse_output_send (Suc 0) ?w2 = - 1"
    by (simp add: send_status_def probe_backends_def)
  have it1: "iterations Rcv_network Pulse_output_send (Suc 0) =
      [Call_rcv Rcv_network, Call_send Pulse_output_send]"
    by (simp add: iterations_def)
  have it2: "iterations Rcv_network Pulse_output_send (Suc (Suc 0)) =
      [Call_rcv Rcv_network, Call_send Pulse_output_send,
       Call_rcv Rcv_network, Call_send Pulse_output_send]"
    by (simp add: iterations_def)
  have z1: "\<forall>k<Suc 0. send_status ?be Rcv_network Pulse_output_send k ?w2 = 0"
    using s0 by simp
  have a: "(\<forall>k<Suc 0. send_status ?be Rcv_network Pulse_output_send k ?w2 = 0) \<longrightarrow>
     main_run build_all test_os ?be ''scream'' [] [] (Suc 0) [] =
     ([] @ [Call_setpriority (- 11)] @ [Call_pulse_output_init 50 200 ''Audio''] @
       [Call_init_network Multicast 0 4010 None] @ iterations Rcv_network Pulse_output_send (Suc 0),
      Running, world_after ?be Rcv_network Pulse_output_send (Suc 0) ?w2)"
    by (insert t [where n = "Suc 0"], elim conjE, assumption)
  have r: "main_run build_all test_os ?be ''scream'' [] [] (Suc 0) [] =
     ([] @ [Call_setpriority (- 11)] @ [Call_pulse_output_init 50 200 ''Audio''] @
       [Call_init_network Multicast 0 4010 None] @ iterations Rcv_network Pulse_output_send (Suc 0),
      Running, world_after ?be Rcv_network Pulse_output_send (Suc 0) ?w2)"
    using a z1 by (rule mp)
  have b: "\<forall>m<7. (\<forall>k<m. send_status ?be Rcv_network Pulse_output_send k ?w2 = 0) \<and>
            send_status ?be Rcv_network Pulse_output_send m ?w2 \<noteq> 0 \<longrightarrow>
     main_run build_all test_os ?be ''scream'' [] [] 7 [] =
     ([] @ [Call_setpriority (- 11)] @ [Call_pulse_output_init 50 200 ''Audio''] @
       [Call_init_network Multicast 0 4010 None] @
       iterations Rcv_network Pulse_output_send (Suc m),
      Exited 1, world_after ?be Rcv_network Pulse_output_send (Suc m) ?w2)"
    by (insert t [where n = 7], elim conjE, assumption)
  have e: "main_run build_all test_os ?be ''scream'' [] [] 7 [] =
     ([] @ [Call_setpriority (- 11)] @ [Call_pulse_output_init 50 200 ''Audio''] @
       [Call_init_network Multicast 0 4010 None] @
       iterations Rcv_network Pulse_output_send (Suc (Suc 0)),
      Exited 1, world_after ?be Rcv_network Pulse_output_send (Suc (Suc 0)) ?w2)"
  proof (rule b [rule_format, of "Suc 0"])
    show "Suc 0 < 7" by simp
    show "(\<forall>k<Suc 0. send_status ?be Rcv_network Pulse_output_send k ?w2 = 0) \<and>
            send_status ?be Rcv_network Pulse_output_send (Suc 0) ?w2 \<noteq> 0"
      using s0 s1 by simp
  qed
  show ?thesis
    using h r e s0 s1 unfolding wa1 wa2 it1 it2 by simp
qed

section \<open>Initialising the output\<close>

lemma test_init_status:
  "selected_init_status build_raw (test_backends i j) (init_vars build_raw) w = Some i"
  by (simp add: selected_init_status_def init_vars_build_raw test_backends_def)

lemma selected_init_call_raw: "selected_init_call (init_vars build_raw) = Call_raw_output_init"
  by (simp add: selected_init_call_def init_vars_build_raw)

lemma test_init_output_raw:
  "init_output build_raw (test_backends i j) ''scream'' (init_vars build_raw) 0 =
     ([Call_raw_output_init], if i \<noteq> 0 then Exit 1 else Continue Raw_output_send, 0)"
  by (simp add: init_output_def init_vars_build_raw test_backends_def verbose_def)

lemma test_main_raw_fails:
  "main build_raw test_os (test_backends 1 j) ''scream'' [] [] n 0 =
     ([Call_setpriority (- 11), Call_raw_output_init], Exited 1)"
proof -
  have "init_output build_raw (test_backends 1 j) ''scream'' (init_vars build_raw) 0 =
     ([Call_raw_output_init], Exit 1, 0)"
    by (simp add: test_init_output_raw)
  with parse_no_options
  have "main build_raw test_os (test_backends 1 j) ''scream'' [] [] n 0 =
     ([] @ [Call_setpriority (- 11)] @ [Call_raw_output_init], Exited 1)"
    by (rule main_init_exit)
  then show ?thesis by simp
qed

lemma main_after_init_failure:
  assumes "parse_options b os arg0 opts operands = (ev, Continue v)"
    and "selected_init_status b be v w = Some r"
    and "r \<noteq> 0"
  shows "\<exists>vb. list_all is_print vb \<and>
           main b os be arg0 opts operands n w =
             (ev @ [Call_setpriority (- 11)] @ vb @ [selected_init_call v], Exited 1)"
proof -
  obtain vb where vb: "list_all is_print vb"
    and io: "init_output b be arg0 v w =
        (vb @ [selected_init_call v], Exit 1, selected_init_world b be v w)"
    using init_output_failure [OF assms(2) assms(3), where ?arg0.0 = arg0] by auto
  have "main b os be arg0 opts operands n w =
             (ev @ [Call_setpriority (- 11)] @ vb @ [selected_init_call v], Exited 1)"
    using assms(1) io by (rule main_init_exit)
  with vb show ?thesis by blast
qed

text \<open>
  Claim C3. When option parsing is done and the init function of the selected output
  backend returns a status other than 0, the process ends with exit status 1 at once:
  the run ends with the init call, no receiver is initialised, and no receive or send
  call is made, however long the run is watched.
\<close>

theorem output_init_failure_aborts:
  assumes "parse_options b os arg0 opts operands = (ev, Continue v)"
    and "selected_init_status b be v w = Some r"
    and "r \<noteq> 0"
  shows "snd (main b os be arg0 opts operands n w) = Exited 1 \<and>
         filter is_loop_call (fst (main b os be arg0 opts operands n w)) = [] \<and>
         filter is_receiver_init (fst (main b os be arg0 opts operands n w)) = [] \<and>
         (\<exists>vb. list_all is_print vb \<and>
            fst (main b os be arg0 opts operands n w) =
              ev @ [Call_setpriority (- 11)] @ vb @ [selected_init_call v])"
proof -
  obtain vb where vb: "list_all is_print vb"
    and m: "main b os be arg0 opts operands n w =
             (ev @ [Call_setpriority (- 11)] @ vb @ [selected_init_call v], Exited 1)"
    using main_after_init_failure [OF assms, where n = n] by auto
  have pe: "list_all is_print ev"
    using parse_options_prints [of b os arg0 opts operands] assms(1) by simp
  have l: "filter is_loop_call (fst (main b os be arg0 opts operands n w)) = []"
    by (simp add: m prints_no_loop_call pe vb selected_init_call_kinds)
  have r: "filter is_receiver_init (fst (main b os be arg0 opts operands n w)) = []"
    by (simp add: m prints_no_receiver_init pe vb selected_init_call_kinds)
  have e: "\<exists>vb. list_all is_print vb \<and>
            fst (main b os be arg0 opts operands n w) =
              ev @ [Call_setpriority (- 11)] @ vb @ [selected_init_call v]"
    using vb m by (intro exI [of _ vb]) simp
  show ?thesis using m l r e by simp
qed

theorem output_init_failure_aborts_witness:
  "parse_options build_raw test_os ''scream'' [] [] = ([], Continue (init_vars build_raw)) \<and>
   selected_init_status build_raw (test_backends 1 2) (init_vars build_raw) 0 = Some 1 \<and>
   (1::int) \<noteq> 0 \<and>
   main build_raw test_os (test_backends 1 2) ''scream'' [] [] 5 0 =
     ([Call_setpriority (- 11), Call_raw_output_init], Exited 1) \<and>
   snd (main build_raw test_os (test_backends 1 2) ''scream'' [] [] 5 0) = Exited 1 \<and>
   filter is_loop_call (fst (main build_raw test_os (test_backends 1 2) ''scream'' [] [] 5 0)) = [] \<and>
   filter is_receiver_init (fst (main build_raw test_os (test_backends 1 2) ''scream'' [] [] 5 0)) = []"
proof -
  have p: "parse_options build_raw test_os ''scream'' [] [] = ([], Continue (init_vars build_raw))"
    by (rule parse_no_options)
  have s: "selected_init_status build_raw (test_backends 1 2) (init_vars build_raw) 0 = Some 1"
    by (rule test_init_status)
  have nz: "(1::int) \<noteq> 0" by simp
  have m: "main build_raw test_os (test_backends 1 2) ''scream'' [] [] 5 0 =
     ([Call_setpriority (- 11), Call_raw_output_init], Exited 1)"
    by (rule test_main_raw_fails)
  show ?thesis
    using output_init_failure_aborts [OF p s nz, where n = 5] p s m by simp
qed

section \<open>Initialising the receiver\<close>

text \<open>When the output is not initialised with success, no receiver is initialised.\<close>

lemma no_receiver_init_without_output:
  assumes "parse_options b os arg0 opts operands = (ev, Continue v)"
    and "selected_init_status b be v w \<noteq> Some 0"
  shows "filter is_receiver_init (fst (main b os be arg0 opts operands n w)) = []"
proof -
  have pe: "list_all is_print ev"
    using parse_options_prints [of b os arg0 opts operands] assms(1) by simp
  show ?thesis
  proof (cases "selected_init_status b be v w")
    case None
    then have "\<not> backend_compiled b (output_mode v)"
      by (simp add: selected_init_status_compiled)
    then have "init_output b be arg0 v w =
        ([Fprintf_stderr (compiled_out_message (output_mode v)) [Str arg0]], Exit 1, w)"
      by (rule init_output_compiled_out)
    with assms(1) have "main b os be arg0 opts operands n w =
        (ev @ [Call_setpriority (- 11)] @
         [Fprintf_stderr (compiled_out_message (output_mode v)) [Str arg0]], Exited 1)"
      by (rule main_init_exit)
    then show ?thesis by (simp add: prints_no_receiver_init pe)
  next
    case (Some r)
    with assms(2) have "r \<noteq> 0" by simp
    then obtain vb where vb: "list_all is_print vb"
      and m: "main b os be arg0 opts operands n w =
             (ev @ [Call_setpriority (- 11)] @ vb @ [selected_init_call v], Exited 1)"
      using main_after_init_failure [OF assms(1) Some, where n = n] by auto
    show ?thesis
      by (simp add: m prints_no_receiver_init pe vb selected_init_call_kinds)
  qed
qed

section \<open>The shape of a run\<close>

text \<open>
  Once the options are parsed, a run takes one of three courses: the selected backend is
  compiled out, its init function fails, or both initialisations are done and the loop
  runs.
\<close>

lemma main_run_compiled_out:
  assumes "parse_options b os arg0 opts operands = (ev, Continue v)"
    and "\<not> backend_compiled b (output_mode v)"
  shows "main_run b os be arg0 opts operands n w =
           (ev @ [Call_setpriority (- 11)] @
            [Fprintf_stderr (compiled_out_message (output_mode v)) [Str arg0]], Exited 1, w)"
  using assms(1) init_output_compiled_out [OF assms(2)] by (rule main_run_init_exit)

lemma main_run_init_failed:
  assumes "parse_options b os arg0 opts operands = (ev, Continue v)"
    and "selected_init_status b be v w = Some r" and "r \<noteq> 0"
  shows "main_run b os be arg0 opts operands n w =
           (ev @ [Call_setpriority (- 11)] @ output_verbose_line v @ [selected_init_call v],
            Exited 1, selected_init_world b be v w)"
  using assms(1) init_output_failure_line [OF assms(2) assms(3)] by (rule main_run_init_exit)

lemma main_run_looping:
  assumes "parse_options b os arg0 opts operands = (ev, Continue v)"
    and "selected_init_status b be v w = Some 0"
  shows "main_run b os be arg0 opts operands n w =
           (ev @ [Call_setpriority (- 11)] @ (output_verbose_line v @ [selected_init_call v]) @
            (receiver_verbose_line v @ [selected_receiver_init v]) @
            fst (driver_loop be (selected_rcv_fn v) (selected_send_fn v) n
                   (selected_receiver_world be v (selected_init_world b be v w))),
            fst (snd (driver_loop be (selected_rcv_fn v) (selected_send_fn v) n
                   (selected_receiver_world be v (selected_init_world b be v w)))),
            snd (snd (driver_loop be (selected_rcv_fn v) (selected_send_fn v) n
                   (selected_receiver_world be v (selected_init_world b be v w)))))"
  using assms(1) init_output_success_line [OF assms(2)] init_receiver_line
  by (rule main_run_loop)


lemma driver_loop_no_inits:
  "filter is_receiver_init (fst (driver_loop be r s n w)) = []"
  "filter is_output_init (fst (driver_loop be r s n w)) = []"
proof -
  obtain k where "fst (driver_loop be r s n w) = iterations r s k"
    using driver_loop_events [of n be r s w] by auto
  then show "filter is_receiver_init (fst (driver_loop be r s n w)) = []"
    "filter is_output_init (fst (driver_loop be r s n w)) = []"
    by (simp_all add: iterations_no_receiver_init iterations_no_output_init)
qed

lemma probe_parse_shmem:
  "parse_options build_raw test_os ''scream'' [(CHR ''m'', ''/dev/uio0'')] [] =
     ([], Continue ((init_vars build_raw)
            \<lparr>receiver_mode := SharedMem, ivshmem_device := Some ''/dev/uio0''\<rparr>))"
  by (simp add: parse_options_def opt_case_m)

lemma probe_init_status:
  "selected_init_status build_raw (probe_backends i j)
     ((init_vars build_raw)\<lparr>receiver_mode := SharedMem, ivshmem_device := Some ''/dev/uio0''\<rparr>) w =
     Some i"
  by (simp add: selected_init_status_def init_vars_build_raw probe_backends_def)

lemma probe_shmem_lines:
  "output_verbose_line
     ((init_vars build_raw)\<lparr>receiver_mode := SharedMem, ivshmem_device := Some ''/dev/uio0''\<rparr>) = []"
  "receiver_verbose_line
     ((init_vars build_raw)\<lparr>receiver_mode := SharedMem, ivshmem_device := Some ''/dev/uio0''\<rparr>) = []"
  "selected_init_call
     ((init_vars build_raw)\<lparr>receiver_mode := SharedMem, ivshmem_device := Some ''/dev/uio0''\<rparr>) =
     Call_raw_output_init"
  "selected_send_fn
     ((init_vars build_raw)\<lparr>receiver_mode := SharedMem, ivshmem_device := Some ''/dev/uio0''\<rparr>) =
     Raw_output_send"
  "selected_init_world build_raw (probe_backends i j)
     ((init_vars build_raw)\<lparr>receiver_mode := SharedMem, ivshmem_device := Some ''/dev/uio0''\<rparr>) w =
     w @ [Call_raw_output_init]"
  by (simp_all add: output_verbose_line_def receiver_verbose_line_def selected_init_call_def
        selected_send_fn_def selected_init_world_def init_vars_build_raw verbose_def
        probe_backends_def)

lemma probe_shmem_fields:
  "receiver_mode
     ((init_vars build_raw)\<lparr>receiver_mode := SharedMem, ivshmem_device := Some ''/dev/uio0''\<rparr>) =
     SharedMem"
  "ivshmem_device
     ((init_vars build_raw)\<lparr>receiver_mode := SharedMem, ivshmem_device := Some ''/dev/uio0''\<rparr>) =
     Some ''/dev/uio0''"
  by simp_all

lemma probe_shmem_loop:
  "driver_loop (probe_backends i 5) Rcv_shmem Raw_output_send 4
     [Call_raw_output_init, Call_init_shmem (Some ''/dev/uio0'')] =
     ([Call_rcv Rcv_shmem, Call_send Raw_output_send, Call_rcv Rcv_shmem, Call_send Raw_output_send],
      Exited 1,
      [Call_raw_output_init, Call_init_shmem (Some ''/dev/uio0''),
       Call_rcv Rcv_shmem, Call_send Raw_output_send, Call_rcv Rcv_shmem, Call_send Raw_output_send])"
  by (simp add: eval_nat_numeral probe_backends_def)

section \<open>Initialising the receiver\<close>

text \<open>
  Claim C7, as it is worded: after option parsing, exactly one transport is initialised.
  A run in which the init function of the selected output backend returns a status other
  than 0 gets through option parsing and initialises no transport at all: \<^verbatim>\<open>main\<close>
  returns 1 before the \<^verbatim>\<open>switch (receiver_mode)\<close>. With the raw backend returning 1 the
  run is the \<^verbatim>\<open>setpriority\<close> call and the init call of the raw backend, and nothing
  else.
\<close>

theorem receiver_init_counterexample:
  "parse_options build_raw test_os ''scream'' [] [] = ([], Continue (init_vars build_raw)) \<and>
   main_run build_raw test_os (probe_backends 1 5) ''scream'' [] [] 4 [] =
     ([Call_setpriority (- 11), Call_raw_output_init], Exited 1, [Call_raw_output_init]) \<and>
   filter is_receiver_init
     (fst (main build_raw test_os (probe_backends 1 5) ''scream'' [] [] 4 [])) = [] \<and>
   \<not> one_receiver_after_parsing build_raw test_os (probe_backends 1 5) ''scream'' [] [] 4 []"
proof -
  have p: "parse_options build_raw test_os ''scream'' [] [] = ([], Continue (init_vars build_raw))"
    by (rule parse_no_options)
  have s: "selected_init_status build_raw (probe_backends 1 5) (init_vars build_raw) [] = Some 1"
    by (simp add: selected_init_status_def init_vars_build_raw probe_backends_def)
  have m: "main_run build_raw test_os (probe_backends 1 5) ''scream'' [] [] 4 [] =
     ([Call_setpriority (- 11), Call_raw_output_init], Exited 1, [Call_raw_output_init])"
    using main_run_init_failed [OF p s, where n = 4]
    by (simp add: output_verbose_line_def selected_init_call_def selected_init_world_def
          init_vars_build_raw verbose_def probe_backends_def)
  have f: "fst (main build_raw test_os (probe_backends 1 5) ''scream'' [] [] 4 []) =
      [Call_setpriority (- 11), Call_raw_output_init]"
    by (simp add: main_of_run m)
  have n: "\<not> one_receiver_after_parsing build_raw test_os (probe_backends 1 5) ''scream'' [] [] 4 []"
    by (simp add: one_receiver_after_parsing_def p f)
  from p m f n show ?thesis by simp
qed

text \<open>
  Claim C7, amended. After option parsing, the receiver is initialised when, and only when,
  the init function of the selected output backend has returned 0. Then exactly one
  receiver is initialised, once, on the world that the output initialisation leaves: in
  shared-memory mode \<^verbatim>\<open>init_shmem\<close> with the device path, otherwise \<^verbatim>\<open>init_network\<close>
  with the mode, the interface, the port and the multicast group. The run has no other
  receiver init call, and the loop that follows starts in the world that this init call
  leaves and calls the receive function of the receiver that was initialised. When the
  selected output backend is compiled out or its init function returns another status, no
  receiver is initialised.
\<close>

theorem one_receiver_initialised:
  assumes "parse_options b os arg0 opts operands = (ev, Continue v)"
  shows "(selected_init_status b be v w = Some 0 \<longrightarrow>
            main_run b os be arg0 opts operands n w =
              (ev @ [Call_setpriority (- 11)] @ output_verbose_line v @ [selected_init_call v] @
               receiver_verbose_line v @
               [if receiver_mode v = SharedMem then Call_init_shmem (ivshmem_device v)
                else Call_init_network (receiver_mode v) (iface v) (port v) (multicast_group v)] @
               fst (driver_loop be (if receiver_mode v = SharedMem then Rcv_shmem else Rcv_network)
                      (selected_send_fn v) n
                      (if receiver_mode v = SharedMem
                       then init_shmem be (ivshmem_device v) (selected_init_world b be v w)
                       else init_network be (receiver_mode v) (iface v) (port v) (multicast_group v)
                              (selected_init_world b be v w))),
               fst (snd (driver_loop be
                      (if receiver_mode v = SharedMem then Rcv_shmem else Rcv_network)
                      (selected_send_fn v) n
                      (if receiver_mode v = SharedMem
                       then init_shmem be (ivshmem_device v) (selected_init_world b be v w)
                       else init_network be (receiver_mode v) (iface v) (port v) (multicast_group v)
                              (selected_init_world b be v w)))),
               snd (snd (driver_loop be
                      (if receiver_mode v = SharedMem then Rcv_shmem else Rcv_network)
                      (selected_send_fn v) n
                      (if receiver_mode v = SharedMem
                       then init_shmem be (ivshmem_device v) (selected_init_world b be v w)
                       else init_network be (receiver_mode v) (iface v) (port v) (multicast_group v)
                              (selected_init_world b be v w))))) \<and>
            filter is_receiver_init (fst (main b os be arg0 opts operands n w)) =
              [if receiver_mode v = SharedMem then Call_init_shmem (ivshmem_device v)
               else Call_init_network (receiver_mode v) (iface v) (port v) (multicast_group v)]) \<and>
         (selected_init_status b be v w \<noteq> Some 0 \<longrightarrow>
            filter is_receiver_init (fst (main b os be arg0 opts operands n w)) = []) \<and>
         call_rcv be Rcv_shmem = rcv_shmem be \<and> call_rcv be Rcv_network = rcv_network be"
proof -
  let ?ri = "if receiver_mode v = SharedMem then Call_init_shmem (ivshmem_device v)
            else Call_init_network (receiver_mode v) (iface v) (port v) (multicast_group v)"
  let ?rf = "if receiver_mode v = SharedMem then Rcv_shmem else Rcv_network"
  let ?w2 = "if receiver_mode v = SharedMem
             then init_shmem be (ivshmem_device v) (selected_init_world b be v w)
             else init_network be (receiver_mode v) (iface v) (port v) (multicast_group v)
                    (selected_init_world b be v w)"
  have ri: "selected_receiver_init v = ?ri" by (simp add: selected_receiver_init_def)
  have rf: "selected_rcv_fn v = ?rf" by (simp add: selected_rcv_fn_def)
  have rw: "selected_receiver_world be v (selected_init_world b be v w) = ?w2"
    by (simp add: selected_receiver_world_def)
  have pe: "list_all is_print ev"
    using parse_options_prints [of b os arg0 opts operands] assms(1) by simp
  have a: "selected_init_status b be v w = Some 0 \<longrightarrow>
            main_run b os be arg0 opts operands n w =
              (ev @ [Call_setpriority (- 11)] @ output_verbose_line v @ [selected_init_call v] @
               receiver_verbose_line v @ [?ri] @
               fst (driver_loop be ?rf (selected_send_fn v) n ?w2),
               fst (snd (driver_loop be ?rf (selected_send_fn v) n ?w2)),
               snd (snd (driver_loop be ?rf (selected_send_fn v) n ?w2))) \<and>
            filter is_receiver_init (fst (main b os be arg0 opts operands n w)) = [?ri]"
  proof
    assume s0: "selected_init_status b be v w = Some 0"
    have m: "main_run b os be arg0 opts operands n w =
              (ev @ [Call_setpriority (- 11)] @ output_verbose_line v @ [selected_init_call v] @
               receiver_verbose_line v @ [selected_receiver_init v] @
               fst (driver_loop be (selected_rcv_fn v) (selected_send_fn v) n
                      (selected_receiver_world be v (selected_init_world b be v w))),
               fst (snd (driver_loop be (selected_rcv_fn v) (selected_send_fn v) n
                      (selected_receiver_world be v (selected_init_world b be v w)))),
               snd (snd (driver_loop be (selected_rcv_fn v) (selected_send_fn v) n
                      (selected_receiver_world be v (selected_init_world b be v w)))))"
      using main_run_looping [OF assms s0, where n = n] by simp
    have f: "filter is_receiver_init (fst (main b os be arg0 opts operands n w)) =
               [selected_receiver_init v]"
      by (simp add: main_of_run m prints_no_receiver_init pe verbose_line_prints
            selected_init_call_kinds selected_receiver_init_kinds driver_loop_no_inits)
    from m f show "main_run b os be arg0 opts operands n w =
              (ev @ [Call_setpriority (- 11)] @ output_verbose_line v @ [selected_init_call v] @
               receiver_verbose_line v @ [?ri] @
               fst (driver_loop be ?rf (selected_send_fn v) n ?w2),
               fst (snd (driver_loop be ?rf (selected_send_fn v) n ?w2)),
               snd (snd (driver_loop be ?rf (selected_send_fn v) n ?w2))) \<and>
            filter is_receiver_init (fst (main b os be arg0 opts operands n w)) = [?ri]"
      unfolding ri rf rw by (rule conjI)
  qed
  have c: "selected_init_status b be v w \<noteq> Some 0 \<longrightarrow>
            filter is_receiver_init (fst (main b os be arg0 opts operands n w)) = []"
    using no_receiver_init_without_output [OF assms, where be = be and w = w and n = n] by simp
  have d: "call_rcv be Rcv_shmem = rcv_shmem be \<and> call_rcv be Rcv_network = rcv_network be"
    by (simp add: call_dispatch)
  show ?thesis
    by (insert a c d, rule conjI, assumption, rule conjI, assumption, assumption)
qed

theorem one_receiver_initialised_witness:
  "parse_options build_raw test_os ''scream'' [(CHR ''m'', ''/dev/uio0'')] [] =
     ([], Continue ((init_vars build_raw)
            \<lparr>receiver_mode := SharedMem, ivshmem_device := Some ''/dev/uio0''\<rparr>)) \<and>
   selected_init_status build_raw (probe_backends 0 5)
     ((init_vars build_raw)\<lparr>receiver_mode := SharedMem, ivshmem_device := Some ''/dev/uio0''\<rparr>) [] =
     Some 0 \<and>
   main_run build_raw test_os (probe_backends 0 5) ''scream'' [(CHR ''m'', ''/dev/uio0'')] [] 4 [] =
     ([Call_setpriority (- 11), Call_raw_output_init, Call_init_shmem (Some ''/dev/uio0''),
       Call_rcv Rcv_shmem, Call_send Raw_output_send, Call_rcv Rcv_shmem, Call_send Raw_output_send],
      Exited 1,
      [Call_raw_output_init, Call_init_shmem (Some ''/dev/uio0''),
       Call_rcv Rcv_shmem, Call_send Raw_output_send, Call_rcv Rcv_shmem, Call_send Raw_output_send]) \<and>
   filter is_receiver_init
     (fst (main build_raw test_os (probe_backends 0 5) ''scream'' [(CHR ''m'', ''/dev/uio0'')] [] 4 [])) =
     [Call_init_shmem (Some ''/dev/uio0'')] \<and>
   selected_init_status build_raw (probe_backends 1 5)
     ((init_vars build_raw)\<lparr>receiver_mode := SharedMem, ivshmem_device := Some ''/dev/uio0''\<rparr>) [] \<noteq>
     Some 0 \<and>
   filter is_receiver_init
     (fst (main build_raw test_os (probe_backends 1 5) ''scream'' [(CHR ''m'', ''/dev/uio0'')] [] 4 [])) =
     []"
proof -
  let ?v = "(init_vars build_raw)\<lparr>receiver_mode := SharedMem, ivshmem_device := Some ''/dev/uio0''\<rparr>"
  note p = probe_parse_shmem
  have s0: "selected_init_status build_raw (probe_backends 0 5) ?v [] = Some 0"
    by (rule probe_init_status)
  have s1: "selected_init_status build_raw (probe_backends 1 5) ?v [] \<noteq> Some 0"
    by (simp add: probe_init_status)
  note t0 = one_receiver_initialised [OF p, where be = "probe_backends 0 5" and w = "[]" and n = 4]
  note t1 = one_receiver_initialised [OF p, where be = "probe_backends 1 5" and w = "[]" and n = 4]
  have i: "init_shmem (probe_backends 0 5) (Some ''/dev/uio0'') [Call_raw_output_init] =
      [Call_raw_output_init, Call_init_shmem (Some ''/dev/uio0'')]"
    by (simp add: probe_backends_def)
  have a: "main_run build_raw test_os (probe_backends 0 5) ''scream'' [(CHR ''m'', ''/dev/uio0'')] [] 4 [] =
     ([Call_setpriority (- 11), Call_raw_output_init, Call_init_shmem (Some ''/dev/uio0''),
       Call_rcv Rcv_shmem, Call_send Raw_output_send, Call_rcv Rcv_shmem, Call_send Raw_output_send],
      Exited 1,
      [Call_raw_output_init, Call_init_shmem (Some ''/dev/uio0''),
       Call_rcv Rcv_shmem, Call_send Raw_output_send, Call_rcv Rcv_shmem, Call_send Raw_output_send])"
    using t0 s0
    by (simp only: probe_shmem_lines probe_shmem_fields if_True append_Nil append_Cons i
          probe_shmem_loop fst_conv snd_conv simp_thms)
  have f: "filter is_receiver_init
     (fst (main build_raw test_os (probe_backends 0 5) ''scream'' [(CHR ''m'', ''/dev/uio0'')] [] 4 [])) =
     [Call_init_shmem (Some ''/dev/uio0'')]"
    using t0 s0 by (simp only: probe_shmem_fields if_True simp_thms)
  have g: "filter is_receiver_init
     (fst (main build_raw test_os (probe_backends 1 5) ''scream'' [(CHR ''m'', ''/dev/uio0'')] [] 4 [])) =
     []"
    using t1 s1 by (simp only: simp_thms)
  from p s0 a f s1 g show ?thesis by (intro conjI)
qed

section \<open>The functions of the loop\<close>



section \<open>The arguments of the output init call\<close>

lemma test_parse_alsa:
  "parse_options b test_os ''scream'' [(CHR ''o'', ''alsa'')] [] =
     ([], Continue ((init_vars b)\<lparr>output_arg := Some ''alsa'', output_mode := Alsa\<rparr>))"
  by (simp add: parse_options_def opt_case_o)

lemma test_parse_raw:
  "parse_options b test_os ''scream'' [(CHR ''o'', ''raw'')] [] =
     ([], Continue ((init_vars b)\<lparr>output_arg := Some ''raw'', output_mode := Raw\<rparr>))"
  by (simp add: parse_options_def opt_case_o)

lemma test_init_output_alsa:
  "init_output build_all (test_backends i j) ''scream''
     ((init_vars build_all)\<lparr>output_arg := Some ''alsa'', output_mode := Alsa\<rparr>) 0 =
     ([Call_alsa_output_init 50 ''default''],
      if i \<noteq> 0 then Exit 1 else Continue Alsa_output_send, 0)"
  by (simp add: init_output_def init_vars_build_all build_flags test_backends_def verbose_def)

lemma test_init_output_raw_o:
  "init_output build_all (test_backends i j) ''scream''
     ((init_vars build_all)\<lparr>output_arg := Some ''raw'', output_mode := Raw\<rparr>) 0 =
     ([Call_raw_output_init], if i \<noteq> 0 then Exit 1 else Continue Raw_output_send, 0)"
  by (simp add: init_output_def init_vars_build_all test_backends_def verbose_def)

lemma test_init_output_alsa_compiled_out:
  "init_output build_raw (test_backends i j) ''scream''
     ((init_vars build_raw)\<lparr>output_arg := Some ''alsa'', output_mode := Alsa\<rparr>) 0 =
     ([Fprintf_stderr ''%s compiled without ALSA support. Aborting\<newline>'' [Str ''scream'']], Exit 1, 0)"
  by (simp add: init_output_def init_vars_build_raw build_flags)

lemma test_init_receiver_network:
  "receiver_mode v = Multicast \<Longrightarrow> verbosity v = 0 \<Longrightarrow>
   init_receiver (test_backends i j) v w =
     ([Call_init_network Multicast (iface v) (port v) (multicast_group v)], Rcv_network, w)"
  by (simp add: init_receiver_def test_backends_def verbose_def)

lemma test_main_alsa_0:
  "main build_all test_os (test_backends 0 j) ''scream'' [(CHR ''o'', ''alsa'')] [] 0 0 =
     ([Call_setpriority (- 11), Call_alsa_output_init 50 ''default'',
       Call_init_network Multicast 0 4010 None], Running)"
proof -
  let ?v = "(init_vars build_all)\<lparr>output_arg := Some ''alsa'', output_mode := Alsa\<rparr>"
  have io: "init_output build_all (test_backends 0 j) ''scream'' ?v 0 =
     ([Call_alsa_output_init 50 ''default''], Continue Alsa_output_send, 0)"
    by (simp add: test_init_output_alsa)
  have ir: "init_receiver (test_backends 0 j) ?v 0 =
     ([Call_init_network Multicast 0 4010 None], Rcv_network, 0)"
    by (simp add: test_init_receiver_network init_vars_build_all)
  show ?thesis
    using main_loop [OF test_parse_alsa io ir, of 0] by simp
qed

lemma test_main_raw_0:
  "main build_all test_os (test_backends 0 j) ''scream'' [(CHR ''o'', ''raw'')] [] 0 0 =
     ([Call_setpriority (- 11), Call_raw_output_init,
       Call_init_network Multicast 0 4010 None], Running)"
proof -
  let ?v = "(init_vars build_all)\<lparr>output_arg := Some ''raw'', output_mode := Raw\<rparr>"
  have io: "init_output build_all (test_backends 0 j) ''scream'' ?v 0 =
     ([Call_raw_output_init], Continue Raw_output_send, 0)"
    by (simp add: test_init_output_raw_o)
  have ir: "init_receiver (test_backends 0 j) ?v 0 =
     ([Call_init_network Multicast 0 4010 None], Rcv_network, 0)"
    by (simp add: test_init_receiver_network init_vars_build_all)
  show ?thesis
    using main_loop [OF test_parse_raw io ir, of 0] by simp
qed

lemma test_main_alsa_compiled_out:
  "main build_raw test_os (test_backends 0 j) ''scream'' [(CHR ''o'', ''alsa'')] [] 0 0 =
     ([Call_setpriority (- 11),
       Fprintf_stderr ''%s compiled without ALSA support. Aborting\<newline>'' [Str ''scream'']],
      Exited 1)"
  using main_init_exit [OF test_parse_alsa test_init_output_alsa_compiled_out, where n = 0]
  by simp

text \<open>
  Claim C2, as stated, fails: with \<^verbatim>\<open>-o alsa\<close> the one init call of the run is
  \<^verbatim>\<open>alsa_output_init(50, "default")\<close>, which passes no maximum latency; with
  \<^verbatim>\<open>-o raw\<close> it is \<^verbatim>\<open>raw_output_init()\<close>, which passes nothing; and with \<^verbatim>\<open>-o alsa\<close>
  in a build without ALSA the run makes no init call at all.
\<close>

theorem sink_init_contract_counterexample:
  "filter is_output_init
     (fst (main build_all test_os (test_backends 0 2) ''scream'' [(CHR ''o'', ''alsa'')] [] 0 0)) =
     [Call_alsa_output_init 50 ''default''] \<and>
   \<not> init_follows_contract build_all test_os (test_backends 0 2) ''scream''
       [(CHR ''o'', ''alsa'')] [] 0 \<and>
   filter is_output_init
     (fst (main build_all test_os (test_backends 0 2) ''scream'' [(CHR ''o'', ''raw'')] [] 0 0)) =
     [Call_raw_output_init] \<and>
   \<not> init_follows_contract build_all test_os (test_backends 0 2) ''scream''
       [(CHR ''o'', ''raw'')] [] 0 \<and>
   filter is_output_init
     (fst (main build_raw test_os (test_backends 0 2) ''scream'' [(CHR ''o'', ''alsa'')] [] 0 0)) =
     [] \<and>
   \<not> init_follows_contract build_raw test_os (test_backends 0 2) ''scream''
       [(CHR ''o'', ''alsa'')] [] 0"
  by (simp add: init_follows_contract_def test_parse_alsa test_parse_raw test_main_alsa_0
        test_main_raw_0 test_main_alsa_compiled_out contract_init_call_def)

lemma probe_parse_alsa:
  "parse_options b test_os ''scream'' [(CHR ''o'', ''alsa'')] [] =
     ([], Continue ((init_vars b)\<lparr>output_arg := Some ''alsa'', output_mode := Alsa\<rparr>))"
  by (rule test_parse_alsa)

lemma probe_alsa_facts:
  "backend_compiled build_all
     (output_mode ((init_vars build_all)\<lparr>output_arg := Some ''alsa'', output_mode := Alsa\<rparr>))"
  "\<not> backend_compiled build_raw
     (output_mode ((init_vars build_raw)\<lparr>output_arg := Some ''alsa'', output_mode := Alsa\<rparr>))"
  "selected_init_status build_all (probe_backends i j)
     ((init_vars build_all)\<lparr>output_arg := Some ''alsa'', output_mode := Alsa\<rparr>) w = Some i"
  by (simp_all add: backend_compiled_def build_flags selected_init_status_def probe_backends_def
        init_vars_build_all)

lemma probe_alsa_values:
  "output_verbose_line ((init_vars b)\<lparr>output_arg := Some ''alsa'', output_mode := Alsa\<rparr>) = []"
  "receiver_verbose_line ((init_vars b)\<lparr>output_arg := Some ''alsa'', output_mode := Alsa\<rparr>) = []"
  "selected_init_call ((init_vars b)\<lparr>output_arg := Some ''alsa'', output_mode := Alsa\<rparr>) =
     Call_alsa_output_init 50 ''default''"
  "selected_receiver_init ((init_vars b)\<lparr>output_arg := Some ''alsa'', output_mode := Alsa\<rparr>) =
     Call_init_network Multicast 0 4010 None"
  "selected_rcv_fn ((init_vars b)\<lparr>output_arg := Some ''alsa'', output_mode := Alsa\<rparr>) = Rcv_network"
  "selected_send_fn ((init_vars b)\<lparr>output_arg := Some ''alsa'', output_mode := Alsa\<rparr>) =
     Alsa_output_send"
  "compiled_out_message
     (output_mode ((init_vars b)\<lparr>output_arg := Some ''alsa'', output_mode := Alsa\<rparr>)) =
     ''%s compiled without ALSA support. Aborting\<newline>''"
  by (simp_all add: output_verbose_line_def receiver_verbose_line_def selected_init_call_def
        selected_receiver_init_def selected_rcv_fn_def selected_send_fn_def compiled_out_message_def
        init_vars_def verbose_def INADDR_ANY_def DEFAULT_PORT_def)

lemma probe_alsa_worlds:
  "selected_init_world build_all (probe_backends i j)
     ((init_vars build_all)\<lparr>output_arg := Some ''alsa'', output_mode := Alsa\<rparr>) w =
     w @ [Call_alsa_output_init 50 ''default'']"
  "selected_receiver_world (probe_backends i j)
     ((init_vars build_all)\<lparr>output_arg := Some ''alsa'', output_mode := Alsa\<rparr>) w =
     w @ [Call_init_network Multicast 0 4010 None]"
  by (simp_all add: selected_init_world_def selected_receiver_world_def build_flags
        init_vars_build_all probe_backends_def)

lemma probe_alsa_loop:
  "driver_loop (probe_backends i 5) Rcv_network Alsa_output_send 3
     [Call_alsa_output_init 50 ''default'', Call_init_network Multicast 0 4010 None] =
     ([Call_rcv Rcv_network, Call_send Alsa_output_send,
       Call_rcv Rcv_network, Call_send Alsa_output_send],
      Exited 1,
      [Call_alsa_output_init 50 ''default'', Call_init_network Multicast 0 4010 None,
       Call_rcv Rcv_network, Call_send Alsa_output_send,
       Call_rcv Rcv_network, Call_send Alsa_output_send])"
  by (simp add: eval_nat_numeral probe_backends_def)

text \<open>
  Claim C2, amended. Once the options are parsed, a selected backend that is compiled in
  is initialised exactly once: its init function is applied once to the world, after
  \<^verbatim>\<open>setpriority\<close> and before the receiver is initialised and before any receive or send
  call, and the status it returns decides how the run goes on. Status 0 leads to the
  initialisation of the receiver on the world that the init function leaves, and to the
  loop; any other status ends the process with exit status 1 right after the call, in the
  world that the init function leaves. The arguments depend on the backend: PulseAudio's
  init receives the target latency, the maximum latency and the stream name; ALSA's init
  receives the target latency and the device name; the raw backend's init receives nothing.
  A selected backend that is compiled out is not initialised: \<^verbatim>\<open>main\<close> prints that the
  program was compiled without support for it and ends the process with exit status 1,
  the world being as it was.
\<close>

theorem sink_init_before_loop:
  assumes "parse_options b os arg0 opts operands = (ev, Continue v)"
  shows "(\<not> backend_compiled b (output_mode v) \<longrightarrow>
            main_run b os be arg0 opts operands n w =
              (ev @ [Call_setpriority (- 11),
                     Fprintf_stderr (compiled_out_message (output_mode v)) [Str arg0]],
               Exited 1, w) \<and>
            filter is_output_init (fst (main b os be arg0 opts operands n w)) = []) \<and>
         (backend_compiled b (output_mode v) \<and> selected_init_status b be v w \<noteq> Some 0 \<longrightarrow>
            main_run b os be arg0 opts operands n w =
              (ev @ [Call_setpriority (- 11)] @ output_verbose_line v @ [selected_init_call v],
               Exited 1, selected_init_world b be v w)) \<and>
         (selected_init_status b be v w = Some 0 \<longrightarrow>
            main_run b os be arg0 opts operands n w =
              (ev @ [Call_setpriority (- 11)] @ output_verbose_line v @ [selected_init_call v] @
               receiver_verbose_line v @ [selected_receiver_init v] @
               fst (driver_loop be (selected_rcv_fn v) (selected_send_fn v) n
                      (selected_receiver_world be v (selected_init_world b be v w))),
               fst (snd (driver_loop be (selected_rcv_fn v) (selected_send_fn v) n
                      (selected_receiver_world be v (selected_init_world b be v w)))),
               snd (snd (driver_loop be (selected_rcv_fn v) (selected_send_fn v) n
                      (selected_receiver_world be v (selected_init_world b be v w)))))) \<and>
         (backend_compiled b (output_mode v) \<longrightarrow>
            filter is_output_init (fst (main b os be arg0 opts operands n w)) =
              [selected_init_call v]) \<and>
         filter is_loop_call
           (ev @ [Call_setpriority (- 11)] @ output_verbose_line v @ [selected_init_call v] @
            receiver_verbose_line v @ [selected_receiver_init v]) = [] \<and>
         selected_init_call v =
           (case output_mode v of
              Pulseaudio \<Rightarrow>
                Call_pulse_output_init (target_latency_ms v) (max_latency_ms v) (stream_name v)
            | Alsa \<Rightarrow> Call_alsa_output_init (target_latency_ms v) (alsa_device v)
            | Raw \<Rightarrow> Call_raw_output_init) \<and>
         selected_init_status b be v w =
           (case output_mode v of
              Pulseaudio \<Rightarrow>
                if PULSEAUDIO_ENABLE b
                then Some (fst (pulse_output_init be (target_latency_ms v) (max_latency_ms v)
                                  (stream_name v) w))
                else None
            | Alsa \<Rightarrow>
                if ALSA_ENABLE b
                then Some (fst (alsa_output_init be (target_latency_ms v) (alsa_device v) w))
                else None
            | Raw \<Rightarrow> Some (fst (raw_output_init be w))) \<and>
         selected_init_world b be v w =
           (case output_mode v of
              Pulseaudio \<Rightarrow>
                if PULSEAUDIO_ENABLE b
                then snd (pulse_output_init be (target_latency_ms v) (max_latency_ms v)
                            (stream_name v) w)
                else w
            | Alsa \<Rightarrow>
                if ALSA_ENABLE b
                then snd (alsa_output_init be (target_latency_ms v) (alsa_device v) w)
                else w
            | Raw \<Rightarrow> snd (raw_output_init be w)) \<and>
         compiled_out_message (output_mode v) =
           (case output_mode v of
              Pulseaudio \<Rightarrow> ''%s compiled without Pulseaudio support. Aborting\<newline>''
            | Alsa \<Rightarrow> ''%s compiled without ALSA support. Aborting\<newline>''
            | Raw \<Rightarrow> [])"
proof -
  have pe: "list_all is_print ev"
    using parse_options_prints [of b os arg0 opts operands] assms(1) by simp
  have a: "\<not> backend_compiled b (output_mode v) \<longrightarrow>
            main_run b os be arg0 opts operands n w =
              (ev @ [Call_setpriority (- 11),
                     Fprintf_stderr (compiled_out_message (output_mode v)) [Str arg0]],
               Exited 1, w) \<and>
            filter is_output_init (fst (main b os be arg0 opts operands n w)) = []"
  proof
    assume nc: "\<not> backend_compiled b (output_mode v)"
    have m: "main_run b os be arg0 opts operands n w =
              (ev @ [Call_setpriority (- 11),
                     Fprintf_stderr (compiled_out_message (output_mode v)) [Str arg0]],
               Exited 1, w)"
      using main_run_compiled_out [OF assms nc, where n = n and w = w and be = be] by simp
    have "filter is_output_init (fst (main b os be arg0 opts operands n w)) = []"
      by (simp add: main_of_run m prints_no_output_init pe)
    with m show "main_run b os be arg0 opts operands n w =
              (ev @ [Call_setpriority (- 11),
                     Fprintf_stderr (compiled_out_message (output_mode v)) [Str arg0]],
               Exited 1, w) \<and>
            filter is_output_init (fst (main b os be arg0 opts operands n w)) = []"
      by (rule conjI)
  qed
  have f: "backend_compiled b (output_mode v) \<and> selected_init_status b be v w \<noteq> Some 0 \<longrightarrow>
            main_run b os be arg0 opts operands n w =
              (ev @ [Call_setpriority (- 11)] @ output_verbose_line v @ [selected_init_call v],
               Exited 1, selected_init_world b be v w)"
  proof
    assume h: "backend_compiled b (output_mode v) \<and> selected_init_status b be v w \<noteq> Some 0"
    then have "selected_init_status b be v w \<noteq> None"
      by (simp add: selected_init_status_compiled)
    then obtain r where r: "selected_init_status b be v w = Some r" by auto
    with h have nz: "r \<noteq> 0" by simp
    from assms r nz show "main_run b os be arg0 opts operands n w =
              (ev @ [Call_setpriority (- 11)] @ output_verbose_line v @ [selected_init_call v],
               Exited 1, selected_init_world b be v w)"
      by (rule main_run_init_failed)
  qed
  have l: "selected_init_status b be v w = Some 0 \<longrightarrow>
            main_run b os be arg0 opts operands n w =
              (ev @ [Call_setpriority (- 11)] @ output_verbose_line v @ [selected_init_call v] @
               receiver_verbose_line v @ [selected_receiver_init v] @
               fst (driver_loop be (selected_rcv_fn v) (selected_send_fn v) n
                      (selected_receiver_world be v (selected_init_world b be v w))),
               fst (snd (driver_loop be (selected_rcv_fn v) (selected_send_fn v) n
                      (selected_receiver_world be v (selected_init_world b be v w)))),
               snd (snd (driver_loop be (selected_rcv_fn v) (selected_send_fn v) n
                      (selected_receiver_world be v (selected_init_world b be v w)))))"
  proof
    assume s0: "selected_init_status b be v w = Some 0"
    show "main_run b os be arg0 opts operands n w =
              (ev @ [Call_setpriority (- 11)] @ output_verbose_line v @ [selected_init_call v] @
               receiver_verbose_line v @ [selected_receiver_init v] @
               fst (driver_loop be (selected_rcv_fn v) (selected_send_fn v) n
                      (selected_receiver_world be v (selected_init_world b be v w))),
               fst (snd (driver_loop be (selected_rcv_fn v) (selected_send_fn v) n
                      (selected_receiver_world be v (selected_init_world b be v w)))),
               snd (snd (driver_loop be (selected_rcv_fn v) (selected_send_fn v) n
                      (selected_receiver_world be v (selected_init_world b be v w)))))"
      using main_run_looping [OF assms s0, where n = n] by simp
  qed
  have o: "backend_compiled b (output_mode v) \<longrightarrow>
            filter is_output_init (fst (main b os be arg0 opts operands n w)) =
              [selected_init_call v]"
  proof
    assume bc: "backend_compiled b (output_mode v)"
    show "filter is_output_init (fst (main b os be arg0 opts operands n w)) =
              [selected_init_call v]"
    proof (cases "selected_init_status b be v w = Some 0")
      case True
      show ?thesis
        by (simp add: main_of_run l [rule_format, OF True] prints_no_output_init pe
              verbose_line_prints selected_init_call_is_output_init selected_receiver_init_kinds
              driver_loop_no_inits)
    next
      case False
      with bc have "backend_compiled b (output_mode v) \<and> selected_init_status b be v w \<noteq> Some 0"
        by simp
      then show ?thesis
        by (simp add: main_of_run f [rule_format] prints_no_output_init pe
              verbose_line_prints selected_init_call_is_output_init)
    qed
  qed
  have q: "filter is_loop_call
           (ev @ [Call_setpriority (- 11)] @ output_verbose_line v @ [selected_init_call v] @
            receiver_verbose_line v @ [selected_receiver_init v]) = []"
    by (simp add: prints_no_loop_call pe verbose_line_prints selected_init_call_kinds
          selected_receiver_init_kinds)
  have c: "selected_init_call v =
           (case output_mode v of
              Pulseaudio \<Rightarrow>
                Call_pulse_output_init (target_latency_ms v) (max_latency_ms v) (stream_name v)
            | Alsa \<Rightarrow> Call_alsa_output_init (target_latency_ms v) (alsa_device v)
            | Raw \<Rightarrow> Call_raw_output_init)"
    by (simp add: selected_init_call_def)
  have st: "selected_init_status b be v w =
           (case output_mode v of
              Pulseaudio \<Rightarrow>
                if PULSEAUDIO_ENABLE b
                then Some (fst (pulse_output_init be (target_latency_ms v) (max_latency_ms v)
                                  (stream_name v) w))
                else None
            | Alsa \<Rightarrow>
                if ALSA_ENABLE b
                then Some (fst (alsa_output_init be (target_latency_ms v) (alsa_device v) w))
                else None
            | Raw \<Rightarrow> Some (fst (raw_output_init be w)))"
    by (simp add: selected_init_status_def)
  have wo: "selected_init_world b be v w =
           (case output_mode v of
              Pulseaudio \<Rightarrow>
                if PULSEAUDIO_ENABLE b
                then snd (pulse_output_init be (target_latency_ms v) (max_latency_ms v)
                            (stream_name v) w)
                else w
            | Alsa \<Rightarrow>
                if ALSA_ENABLE b
                then snd (alsa_output_init be (target_latency_ms v) (alsa_device v) w)
                else w
            | Raw \<Rightarrow> snd (raw_output_init be w))"
    by (simp add: selected_init_world_def)
  have cm: "compiled_out_message (output_mode v) =
           (case output_mode v of
              Pulseaudio \<Rightarrow> ''%s compiled without Pulseaudio support. Aborting\<newline>''
            | Alsa \<Rightarrow> ''%s compiled without ALSA support. Aborting\<newline>''
            | Raw \<Rightarrow> [])"
    by (simp add: compiled_out_message_def)
  show ?thesis
    by (insert a f l o q c st wo cm, (rule conjI, assumption)+, assumption)
qed

theorem sink_init_before_loop_witness:
  "parse_options build_all test_os ''scream'' [(CHR ''o'', ''alsa'')] [] =
     ([], Continue ((init_vars build_all)\<lparr>output_arg := Some ''alsa'', output_mode := Alsa\<rparr>)) \<and>
   parse_options build_raw test_os ''scream'' [(CHR ''o'', ''alsa'')] [] =
     ([], Continue ((init_vars build_raw)\<lparr>output_arg := Some ''alsa'', output_mode := Alsa\<rparr>)) \<and>
   backend_compiled build_all
     (output_mode ((init_vars build_all)\<lparr>output_arg := Some ''alsa'', output_mode := Alsa\<rparr>)) \<and>
   \<not> backend_compiled build_raw
     (output_mode ((init_vars build_raw)\<lparr>output_arg := Some ''alsa'', output_mode := Alsa\<rparr>)) \<and>
   selected_init_status build_all (probe_backends 1 5)
     ((init_vars build_all)\<lparr>output_arg := Some ''alsa'', output_mode := Alsa\<rparr>) [] \<noteq> Some 0 \<and>
   selected_init_status build_all (probe_backends 0 5)
     ((init_vars build_all)\<lparr>output_arg := Some ''alsa'', output_mode := Alsa\<rparr>) [] = Some 0 \<and>
   main_run build_raw test_os (probe_backends 0 5) ''scream'' [(CHR ''o'', ''alsa'')] [] 3 [] =
     ([Call_setpriority (- 11),
       Fprintf_stderr ''%s compiled without ALSA support. Aborting\<newline>'' [Str ''scream'']],
      Exited 1, []) \<and>
   main_run build_all test_os (probe_backends 1 5) ''scream'' [(CHR ''o'', ''alsa'')] [] 3 [] =
     ([Call_setpriority (- 11), Call_alsa_output_init 50 ''default''], Exited 1,
      [Call_alsa_output_init 50 ''default'']) \<and>
   main_run build_all test_os (probe_backends 0 5) ''scream'' [(CHR ''o'', ''alsa'')] [] 3 [] =
     ([Call_setpriority (- 11), Call_alsa_output_init 50 ''default'',
       Call_init_network Multicast 0 4010 None,
       Call_rcv Rcv_network, Call_send Alsa_output_send,
       Call_rcv Rcv_network, Call_send Alsa_output_send],
      Exited 1,
      [Call_alsa_output_init 50 ''default'', Call_init_network Multicast 0 4010 None,
       Call_rcv Rcv_network, Call_send Alsa_output_send,
       Call_rcv Rcv_network, Call_send Alsa_output_send])"
proof -
  let ?va = "(init_vars build_all)\<lparr>output_arg := Some ''alsa'', output_mode := Alsa\<rparr>"
  let ?vr = "(init_vars build_raw)\<lparr>output_arg := Some ''alsa'', output_mode := Alsa\<rparr>"
  note pa = probe_parse_alsa [of build_all]
  note pr = probe_parse_alsa [of build_raw]
  have bc: "backend_compiled build_all (output_mode ?va)"
    and nbc: "\<not> backend_compiled build_raw (output_mode ?vr)"
    by (rule probe_alsa_facts)+
  have s1: "selected_init_status build_all (probe_backends 1 5) ?va [] \<noteq> Some 0"
    by (simp add: probe_alsa_facts)
  have s0: "selected_init_status build_all (probe_backends 0 5) ?va [] = Some 0"
    by (rule probe_alsa_facts)
  note tr = sink_init_before_loop [OF pr, where be = "probe_backends 0 5" and n = 3 and w = "[]"]
  note t1 = sink_init_before_loop [OF pa, where be = "probe_backends 1 5" and n = 3 and w = "[]"]
  note t0 = sink_init_before_loop [OF pa, where be = "probe_backends 0 5" and n = 3 and w = "[]"]
  have r: "main_run build_raw test_os (probe_backends 0 5) ''scream'' [(CHR ''o'', ''alsa'')] [] 3 [] =
     ([Call_setpriority (- 11),
       Fprintf_stderr ''%s compiled without ALSA support. Aborting\<newline>'' [Str ''scream'']],
      Exited 1, [])"
    using conjunct1 [OF tr] nbc by (simp only: probe_alsa_values append_Nil simp_thms)
  have f: "main_run build_all test_os (probe_backends 1 5) ''scream'' [(CHR ''o'', ''alsa'')] [] 3 [] =
     ([Call_setpriority (- 11), Call_alsa_output_init 50 ''default''], Exited 1,
      [Call_alsa_output_init 50 ''default''])"
    using conjunct1 [OF conjunct2 [OF t1]] bc s1
    by (simp only: probe_alsa_values probe_alsa_worlds append_Nil append_Cons simp_thms)
  have l: "main_run build_all test_os (probe_backends 0 5) ''scream'' [(CHR ''o'', ''alsa'')] [] 3 [] =
     ([Call_setpriority (- 11), Call_alsa_output_init 50 ''default'',
       Call_init_network Multicast 0 4010 None,
       Call_rcv Rcv_network, Call_send Alsa_output_send,
       Call_rcv Rcv_network, Call_send Alsa_output_send],
      Exited 1,
      [Call_alsa_output_init 50 ''default'', Call_init_network Multicast 0 4010 None,
       Call_rcv Rcv_network, Call_send Alsa_output_send,
       Call_rcv Rcv_network, Call_send Alsa_output_send])"
    using conjunct1 [OF conjunct2 [OF conjunct2 [OF t0]]] s0
    by (simp only: probe_alsa_values probe_alsa_worlds append_Nil append_Cons probe_alsa_loop
          fst_conv snd_conv simp_thms)
  show ?thesis
    by (insert pa pr bc nbc s1 s0 r f l, (rule conjI, assumption)+, assumption)
qed

section \<open>An unknown value of \<^verbatim>\<open>-o\<close>\<close>

lemma getopt_loop_append:
  "getopt_loop os arg0 (xs @ ys) v =
     (case getopt_loop os arg0 xs v of
        (ev, Continue v') \<Rightarrow> (case getopt_loop os arg0 ys v' of (ev', res) \<Rightarrow> (ev @ ev', res))
      | (ev, Exit n) \<Rightarrow> (ev, Exit n))"
proof (induction xs arbitrary: v)
  case Nil
  show ?case by (simp split: prod.splits)
next
  case (Cons x xs)
  obtain ev res where oc: "opt_case os arg0 v x = (ev, res)"
    by (cases "opt_case os arg0 v x")
  show ?case
  proof (cases res)
    case (Continue v')
    show ?thesis
      using oc Continue Cons.IH [of v']
      by (simp split: prod.splits step.splits)
  next
    case (Exit n)
    then show ?thesis using oc by simp
  qed
qed

lemma same_but_output_refl: "same_but_output v v"
  by (simp add: same_but_output_def)

lemma same_but_output_update: "same_but_output v (v\<lparr>output_arg := x\<rparr>)"
  by (simp add: same_but_output_def)

lemma same_but_output_fields:
  assumes "same_but_output v v'"
  shows "receiver_mode v' = receiver_mode v" "output_mode v' = output_mode v"
    "multicast_group v' = multicast_group v" "ivshmem_device v' = ivshmem_device v"
    "alsa_device v' = alsa_device v" "stream_name v' = stream_name v"
    "target_latency_ms v' = target_latency_ms v" "max_latency_ms v' = max_latency_ms v"
    "iface v' = iface v" "port v' = port v" "verbosity v' = verbosity v"
  using assms by (simp_all add: same_but_output_def)

lemma opt_case_same:
  assumes "same_but_output v v'"
  shows "same_step (opt_case os arg0 v r) (opt_case os arg0 v' r)"
proof -
  obtain c x where r: "r = (c, x)" by (cases r)
  note f = same_but_output_fields [OF assms]
  show ?thesis
    unfolding r
    by (cases c rule: opt_char_cases)
       (auto simp: opt_case_simps same_step_def same_but_output_def f
             split: prod.splits step.splits option.splits)
qed

lemma same_step_cases:
  assumes "same_step x y"
  obtains (continue) ev v v' where "x = (ev, Continue v)" "y = (ev, Continue v')" "same_but_output v v'"
        | (exit) ev n where "x = (ev, Exit n)" "y = (ev, Exit n)"
proof -
  obtain ev res where x: "x = (ev, res)" by (cases x)
  obtain ev' res' where y: "y = (ev', res')" by (cases y)
  from assms x y have e: "ev' = ev" by (simp add: same_step_def)
  show ?thesis
  proof (cases res)
    case (Continue v)
    with assms x y obtain v' where "res' = Continue v'" "same_but_output v v'"
      by (cases res') (simp_all add: same_step_def)
    with x y e Continue show ?thesis using continue by simp
  next
    case (Exit n)
    with assms x y have "res' = Exit n"
      by (cases res') (simp_all add: same_step_def)
    with x y e Exit show ?thesis using exit by simp
  qed
qed

lemma same_step_prepend:
  "same_step x y \<Longrightarrow> same_step (ev @ fst x, snd x) (ev @ fst y, snd y)"
  by (simp add: same_step_def)

lemma getopt_loop_same:
  "same_but_output v v' \<Longrightarrow> same_step (getopt_loop os arg0 rs v) (getopt_loop os arg0 rs v')"
proof (induction rs arbitrary: v v')
  case Nil
  then show ?case by (simp add: same_step_def)
next
  case (Cons r rs)
  have "same_step (opt_case os arg0 v r) (opt_case os arg0 v' r)"
    using Cons.prems by (rule opt_case_same)
  then show ?case
  proof (cases rule: same_step_cases)
    case (continue ev u u')
    have ih: "same_step (getopt_loop os arg0 rs u) (getopt_loop os arg0 rs u')"
      using continue(3) by (rule Cons.IH)
    have l: "getopt_loop os arg0 (r # rs) v =
               (ev @ fst (getopt_loop os arg0 rs u), snd (getopt_loop os arg0 rs u))"
      using continue(1) by (simp split: prod.splits)
    have r: "getopt_loop os arg0 (r # rs) v' =
               (ev @ fst (getopt_loop os arg0 rs u'), snd (getopt_loop os arg0 rs u'))"
      using continue(2) by (simp split: prod.splits)
    show ?thesis unfolding l r using ih by (rule same_step_prepend)
  next
    case (exit ev n)
    then show ?thesis by (simp add: same_step_def)
  qed
qed

lemma init_output_same:
  assumes "same_but_output v v'"
  shows "init_output b be arg0 v' w = init_output b be arg0 v w"
  unfolding init_output_def verbose_def same_but_output_fields [OF assms] by (rule refl)

lemma init_receiver_same:
  assumes "same_but_output v v'"
  shows "init_receiver be v' w = init_receiver be v w"
  unfolding init_receiver_def verbose_def same_but_output_fields [OF assms] by (rule refl)

lemma main_same:
  assumes "same_step (getopt_loop os arg0 opts (init_vars b)) (getopt_loop os arg0 opts' (init_vars b))"
  shows "main b os be arg0 opts operands n w = main b os be arg0 opts' operands n w"
  using assms
proof (cases rule: same_step_cases)
  case (continue ev v v')
  show ?thesis
  proof (cases "operands = []")
    case True
    have p1: "parse_options b os arg0 opts operands = (ev, Continue v)"
      using True continue(1) by (simp add: parse_options_def)
    have p2: "parse_options b os arg0 opts' operands = (ev, Continue v')"
      using True continue(2) by (simp add: parse_options_def)
    obtain ev1 st w1 where io: "init_output b be arg0 v w = (ev1, st, w1)"
      by (cases "init_output b be arg0 v w")
    then have io': "init_output b be arg0 v' w = (ev1, st, w1)"
      by (simp add: init_output_same [OF continue(3)])
    show ?thesis
    proof (cases st)
      case (Exit c)
      show ?thesis
        using main_run_init_exit [OF p1 io [unfolded Exit], where n = n]
          main_run_init_exit [OF p2 io' [unfolded Exit], where n = n]
        by (simp add: main_def)
    next
      case (Continue sfn)
      obtain ev2 rfn w2 where ir: "init_receiver be v w1 = (ev2, rfn, w2)"
        by (cases "init_receiver be v w1")
      then have ir': "init_receiver be v' w1 = (ev2, rfn, w2)"
        by (simp add: init_receiver_same [OF continue(3)])
      show ?thesis
        using main_run_loop [OF p1 io [unfolded Continue] ir, where n = n]
          main_run_loop [OF p2 io' [unfolded Continue] ir', where n = n]
        by (simp add: main_def)
    qed
  next
    case False
    then show ?thesis
      using continue(1) continue(2)
      by (simp add: main_def main_run_def parse_options_def show_usage_def)
  qed
next
  case (exit ev n)
  then show ?thesis by (simp add: main_def main_run_def parse_options_def)
qed

lemma opt_case_unknown_output:
  "\<not> known_output s \<Longrightarrow>
   opt_case os arg0 v (CHR ''o'', s) = ([], Continue (v\<lparr>output_arg := Some s\<rparr>))"
  by (simp add: opt_case_o known_output_def)

lemma getopt_loop_skip_unknown_output:
  assumes "\<not> known_output s"
  shows "same_step (getopt_loop os arg0 (pre @ (CHR ''o'', s) # post) v)
           (getopt_loop os arg0 (pre @ post) v)"
proof -
  obtain ev res where g: "getopt_loop os arg0 pre v = (ev, res)"
    by (cases "getopt_loop os arg0 pre v")
  show ?thesis
  proof (cases res)
    case (Continue u)
    have "same_but_output (u\<lparr>output_arg := Some s\<rparr>) u"
      by (simp add: same_but_output_def)
    then have ss: "same_step (getopt_loop os arg0 post (u\<lparr>output_arg := Some s\<rparr>))
                 (getopt_loop os arg0 post u)"
      by (rule getopt_loop_same)
    have l: "getopt_loop os arg0 (pre @ (CHR ''o'', s) # post) v =
               (ev @ fst (getopt_loop os arg0 post (u\<lparr>output_arg := Some s\<rparr>)),
                snd (getopt_loop os arg0 post (u\<lparr>output_arg := Some s\<rparr>)))"
      using g Continue opt_case_unknown_output [OF assms, of os arg0 u]
      by (simp add: getopt_loop_append split: prod.splits)
    have r: "getopt_loop os arg0 (pre @ post) v =
               (ev @ fst (getopt_loop os arg0 post u), snd (getopt_loop os arg0 post u))"
      using g Continue by (simp add: getopt_loop_append split: prod.splits)
    show ?thesis unfolding l r using ss by (rule same_step_prepend)
  next
    case (Exit n)
    then show ?thesis using g by (simp add: getopt_loop_append same_step_def)
  qed
qed

lemma opt_case_keeps_output_mode:
  assumes "fst r = CHR ''o'' \<longrightarrow> \<not> known_output (snd r)"
    and "opt_case os arg0 v r = (ev, Continue v')"
  shows "output_mode v' = output_mode v"
proof -
  obtain c x where r: "r = (c, x)" by (cases r)
  show ?thesis
    using assms unfolding r
    by (cases c rule: opt_char_cases)
       (auto simp: opt_case_simps show_usage_def known_output_def
             split: prod.splits step.splits option.splits if_splits)
qed

lemma getopt_loop_keeps_output_mode:
  "(\<forall>r\<in>set rs. fst r = CHR ''o'' \<longrightarrow> \<not> known_output (snd r)) \<Longrightarrow>
   getopt_loop os arg0 rs v = (ev, Continue v') \<Longrightarrow> output_mode v' = output_mode v"
proof (induction rs arbitrary: v ev)
  case Nil
  then show ?case by simp
next
  case (Cons r rs)
  obtain e1 res where oc: "opt_case os arg0 v r = (e1, res)"
    by (cases "opt_case os arg0 v r")
  show ?case
  proof (cases res)
    case (Continue u)
    obtain e2 res2 where g: "getopt_loop os arg0 rs u = (e2, res2)"
      by (cases "getopt_loop os arg0 rs u")
    from Cons.prems(2) oc Continue g have r2: "res2 = Continue v'" by simp
    have "output_mode v' = output_mode u"
      using Cons.IH [of u e2] Cons.prems(1) g r2 by simp
    moreover have "output_mode u = output_mode v"
      using opt_case_keeps_output_mode [of r os arg0 v e1 u] Cons.prems(1) oc Continue by simp
    ultimately show ?thesis by simp
  next
    case (Exit n)
    with Cons.prems(2) oc show ?thesis by simp
  qed
qed

lemma parse_options_Continue:
  "parse_options b os arg0 opts operands = (ev, Continue v) \<Longrightarrow>
   getopt_loop os arg0 opts (init_vars b) = (ev, Continue v) \<and> operands = []"
  by (auto simp: parse_options_def show_usage_def split: prod.splits step.splits if_splits)

text \<open>
  Claim C9. A value of \<^verbatim>\<open>-o\<close> that is none of \<^verbatim>\<open>pulse\<close>, \<^verbatim>\<open>alsa\<close> and \<^verbatim>\<open>raw\<close> is
  taken without a message: the option prints nothing, does not end the process and
  leaves \<^verbatim>\<open>output_mode\<close> as it was. The whole run is the run of the same command line
  without this option. When no \<^verbatim>\<open>-o\<close> of the command line has a known value, the
  output mode after parsing is the default of the build.
\<close>

theorem unknown_output_ignored:
  assumes "\<not> known_output s"
  shows "opt_case os arg0 v (CHR ''o'', s) = ([], Continue (v\<lparr>output_arg := Some s\<rparr>)) \<and>
         output_mode (v\<lparr>output_arg := Some s\<rparr>) = output_mode v \<and>
         main b os be arg0 (pre @ (CHR ''o'', s) # post) operands n w =
           main b os be arg0 (pre @ post) operands n w \<and>
         ((\<forall>r\<in>set (pre @ post). fst r = CHR ''o'' \<longrightarrow> \<not> known_output (snd r)) \<longrightarrow>
          (\<forall>ev v'. parse_options b os arg0 (pre @ (CHR ''o'', s) # post) operands = (ev, Continue v') \<longrightarrow>
             output_mode v' = default_output_mode b))"
proof -
  have a: "opt_case os arg0 v (CHR ''o'', s) = ([], Continue (v\<lparr>output_arg := Some s\<rparr>))"
    using assms by (rule opt_case_unknown_output)
  have m: "main b os be arg0 (pre @ (CHR ''o'', s) # post) operands n w =
           main b os be arg0 (pre @ post) operands n w"
    using getopt_loop_skip_unknown_output [OF assms] by (rule main_same)
  have d: "(\<forall>r\<in>set (pre @ post). fst r = CHR ''o'' \<longrightarrow> \<not> known_output (snd r)) \<longrightarrow>
          (\<forall>ev v'. parse_options b os arg0 (pre @ (CHR ''o'', s) # post) operands = (ev, Continue v') \<longrightarrow>
             output_mode v' = default_output_mode b)"
  proof (intro impI allI)
    fix ev v'
    assume u: "\<forall>r\<in>set (pre @ post). fst r = CHR ''o'' \<longrightarrow> \<not> known_output (snd r)"
      and p: "parse_options b os arg0 (pre @ (CHR ''o'', s) # post) operands = (ev, Continue v')"
    have all: "\<forall>r\<in>set (pre @ (CHR ''o'', s) # post). fst r = CHR ''o'' \<longrightarrow> \<not> known_output (snd r)"
      using u assms by auto
    have "getopt_loop os arg0 (pre @ (CHR ''o'', s) # post) (init_vars b) = (ev, Continue v')"
      using parse_options_Continue [OF p] by simp
    with all have "output_mode v' = output_mode (init_vars b)"
      by (rule getopt_loop_keeps_output_mode)
    then show "output_mode v' = default_output_mode b"
      by (simp add: init_vars_def)
  qed
  from a m d show ?thesis by simp
qed

theorem unknown_output_ignored_witness:
  "\<not> known_output ''jack'' \<and>
   opt_case test_os ''scream'' (init_vars build_all) (CHR ''o'', ''jack'') =
     ([], Continue ((init_vars build_all)\<lparr>output_arg := Some ''jack''\<rparr>)) \<and>
   main build_all test_os (test_backends 0 2) ''scream'' ([] @ (CHR ''o'', ''jack'') # []) [] 7 0 =
     main build_all test_os (test_backends 0 2) ''scream'' ([] @ []) [] 7 0 \<and>
   parse_options build_all test_os ''scream'' ([] @ (CHR ''o'', ''jack'') # []) [] =
     ([], Continue ((init_vars build_all)\<lparr>output_arg := Some ''jack''\<rparr>)) \<and>
   output_mode ((init_vars build_all)\<lparr>output_arg := Some ''jack''\<rparr>) = default_output_mode build_all \<and>
   default_output_mode build_all = Pulseaudio"
proof -
  have k: "\<not> known_output ''jack''" by (simp add: known_output_def)
  have p: "parse_options build_all test_os ''scream'' ([] @ (CHR ''o'', ''jack'') # []) [] =
     ([], Continue ((init_vars build_all)\<lparr>output_arg := Some ''jack''\<rparr>))"
    by (simp add: parse_options_def opt_case_o)
  have e: "\<forall>r\<in>set ([] @ [] :: getopt_result list). fst r = CHR ''o'' \<longrightarrow> \<not> known_output (snd r)"
    by simp
  have d: "default_output_mode build_all = Pulseaudio"
    by (simp add: default_output_mode_def build_flags)
  note t = unknown_output_ignored [OF k, where os = test_os and ?arg0.0 = "''scream''"
      and v = "init_vars build_all" and b = build_all and be = "test_backends 0 2" and pre = "[]"
      and post = "[]" and operands = "[]" and n = 7 and w = 0]
  from t have t1: "opt_case test_os ''scream'' (init_vars build_all) (CHR ''o'', ''jack'') =
     ([], Continue ((init_vars build_all)\<lparr>output_arg := Some ''jack''\<rparr>))"
    by (rule conjunct1)
  from t have t3: "main build_all test_os (test_backends 0 2) ''scream'' ([] @ (CHR ''o'', ''jack'') # []) [] 7 0 =
     main build_all test_os (test_backends 0 2) ''scream'' ([] @ []) [] 7 0"
    by blast
  from t e p have t4: "output_mode ((init_vars build_all)\<lparr>output_arg := Some ''jack''\<rparr>) =
      default_output_mode build_all"
    by blast
  from k t1 t3 p t4 d show ?thesis by (intro conjI)
qed

section \<open>Option values that are rejected\<close>




















section \<open>Frames that pass the transport boundary\<close>

lemma accept_frame_Some:
  "accept_frame h p = Some f \<Longrightarrow> frame_valid h (length p) \<and> format f = h \<and> payload f = p"
  by (auto simp: accept_frame_def split: if_splits)

lemma accepted_frame_valid:
  "accept_frame h p = Some f \<Longrightarrow> frame_valid (format f) (payload_len f)"
  by (auto simp: accept_frame_def payload_len_def split: if_splits)

lemma parse_datagram_valid:
  "parse_datagram d = Some f \<Longrightarrow> frame_valid (format f) (payload_len f)"
  by (auto simp: parse_datagram_def split: list.splits dest: accepted_frame_valid)

lemma receive_network_Some:
  "receive_network ds = Some (f, rest) \<Longrightarrow>
   \<exists>skipped d. ds = skipped @ d # rest \<and> parse_datagram d = Some f \<and>
     (\<forall>x\<in>set skipped. parse_datagram x = None)"
proof (induction ds)
  case Nil
  then show ?case by simp
next
  case (Cons d ds)
  show ?case
  proof (cases "parse_datagram d")
    case None
    with Cons.prems have "receive_network ds = Some (f, rest)" by simp
    then obtain skipped d' where s: "ds = skipped @ d' # rest" "parse_datagram d' = Some f"
      "\<forall>x\<in>set skipped. parse_datagram x = None"
      using Cons.IH by blast
    have "d # ds = (d # skipped) @ d' # rest \<and> parse_datagram d' = Some f \<and>
          (\<forall>x\<in>set (d # skipped). parse_datagram x = None)"
      using s None by simp
    then show ?thesis by blast
  next
    case (Some g)
    with Cons.prems have "g = f" "ds = rest" by simp_all
    with Some have "d # ds = [] @ d # rest \<and> parse_datagram d = Some f \<and>
          (\<forall>x\<in>set ([] :: byte list list). parse_datagram x = None)"
      by simp
    then show ?thesis by blast
  qed
qed

text \<open>
  Claim C4. A Frame that the validation helper accepts has a payload length that is a
  multiple of \<open>channels \<times> sample_bits / 8\<close>, a channel count from 1 to 255 and 8, 16, 24
  or 32 sample bits; a Frame for which one of these fails is dropped at the boundary. The
  Frame that the network receiver returns comes from one of the datagrams, went through
  the helper, and so has the three properties: the datagrams before it were all
  discarded, and nothing that the helper rejects is passed on.
\<close>

theorem accepted_frames_well_formed:
  "(accept_frame h p = Some f \<longrightarrow>
      format f = h \<and> payload f = p \<and>
      payload_len f mod (unat (channels (format f)) * (unat (sample_bits (format f)) div 8)) = 0 \<and>
      1 \<le> unat (channels (format f)) \<and> unat (channels (format f)) \<le> 255 \<and>
      unat (sample_bits (format f)) \<in> {8, 16, 24, 32}) \<and>
   (\<not> (length p mod (unat (channels h) * (unat (sample_bits h) div 8)) = 0 \<and>
       1 \<le> unat (channels h) \<and> unat (channels h) \<le> 255 \<and>
       unat (sample_bits h) \<in> {8, 16, 24, 32}) \<longrightarrow>
      accept_frame h p = None) \<and>
   (receive_network ds = Some (g, rest) \<longrightarrow>
      payload_len g mod (unat (channels (format g)) * (unat (sample_bits (format g)) div 8)) = 0 \<and>
      1 \<le> unat (channels (format g)) \<and> unat (channels (format g)) \<le> 255 \<and>
      unat (sample_bits (format g)) \<in> {8, 16, 24, 32} \<and>
      (\<exists>skipped d. ds = skipped @ d # rest \<and> parse_datagram d = Some g \<and>
         (\<forall>x\<in>set skipped. parse_datagram x = None)))"
proof -
  have a: "accept_frame h p = Some f \<longrightarrow>
      format f = h \<and> payload f = p \<and>
      payload_len f mod (unat (channels (format f)) * (unat (sample_bits (format f)) div 8)) = 0 \<and>
      1 \<le> unat (channels (format f)) \<and> unat (channels (format f)) \<le> 255 \<and>
      unat (sample_bits (format f)) \<in> {8, 16, 24, 32}"
  proof
    assume s: "accept_frame h p = Some f"
    then have "frame_valid (format f) (payload_len f)" by (rule accepted_frame_valid)
    then show "format f = h \<and> payload f = p \<and>
      payload_len f mod (unat (channels (format f)) * (unat (sample_bits (format f)) div 8)) = 0 \<and>
      1 \<le> unat (channels (format f)) \<and> unat (channels (format f)) \<le> 255 \<and>
      unat (sample_bits (format f)) \<in> {8, 16, 24, 32}"
      using accept_frame_Some [OF s] by (auto simp: frame_valid_def sample_frame_size_def)
  qed
  have b: "\<not> (length p mod (unat (channels h) * (unat (sample_bits h) div 8)) = 0 \<and>
       1 \<le> unat (channels h) \<and> unat (channels h) \<le> 255 \<and>
       unat (sample_bits h) \<in> {8, 16, 24, 32}) \<longrightarrow>
      accept_frame h p = None"
    by (auto simp: accept_frame_def frame_valid_def sample_frame_size_def)
  have c: "receive_network ds = Some (g, rest) \<longrightarrow>
      payload_len g mod (unat (channels (format g)) * (unat (sample_bits (format g)) div 8)) = 0 \<and>
      1 \<le> unat (channels (format g)) \<and> unat (channels (format g)) \<le> 255 \<and>
      unat (sample_bits (format g)) \<in> {8, 16, 24, 32} \<and>
      (\<exists>skipped d. ds = skipped @ d # rest \<and> parse_datagram d = Some g \<and>
         (\<forall>x\<in>set skipped. parse_datagram x = None))"
  proof
    assume r: "receive_network ds = Some (g, rest)"
    then have e: "\<exists>skipped d. ds = skipped @ d # rest \<and> parse_datagram d = Some g \<and>
         (\<forall>x\<in>set skipped. parse_datagram x = None)"
      by (rule receive_network_Some)
    then obtain d where "parse_datagram d = Some g" by blast
    then have "frame_valid (format g) (payload_len g)" by (rule parse_datagram_valid)
    then show "payload_len g mod (unat (channels (format g)) * (unat (sample_bits (format g)) div 8)) = 0 \<and>
      1 \<le> unat (channels (format g)) \<and> unat (channels (format g)) \<le> 255 \<and>
      unat (sample_bits (format g)) \<in> {8, 16, 24, 32} \<and>
      (\<exists>skipped d. ds = skipped @ d # rest \<and> parse_datagram d = Some g \<and>
         (\<forall>x\<in>set skipped. parse_datagram x = None))"
      using e by (auto simp: frame_valid_def sample_frame_size_def)
  qed
  from a b c show ?thesis by (intro conjI)
qed

lemma test_accept_frame_a: "accept_frame format_a [1, 2, 3, 4] = Some frame_a"
  by (simp add: accept_frame_def frame_valid_def sample_frame_size_def format_a_def frame_a_def)

lemma test_parse_short: "parse_datagram [129, 16, 2] = None"
  by (simp add: parse_datagram_def)

lemma test_parse_misaligned: "parse_datagram [129, 16, 2, 3, 0, 1, 2, 3] = None"
  by (simp add: parse_datagram_def accept_frame_def frame_valid_def sample_frame_size_def)

lemma test_parse_frame_a: "parse_datagram [129, 16, 2, 3, 0, 1, 2, 3, 4] = Some frame_a"
  by (simp add: parse_datagram_def accept_frame_def frame_valid_def sample_frame_size_def
        frame_a_def format_a_def)

lemma test_receive_network:
  "receive_network [[129, 16, 2], [129, 16, 2, 3, 0, 1, 2, 3], [129, 16, 2, 3, 0, 1, 2, 3, 4], []] =
     Some (frame_a, [[]])"
  by (simp add: test_parse_short test_parse_misaligned test_parse_frame_a)

theorem accepted_frames_well_formed_witness:
  "accept_frame format_a [1, 2, 3, 4] = Some frame_a \<and>
   payload_len frame_a mod
     (unat (channels (format frame_a)) * (unat (sample_bits (format frame_a)) div 8)) = 0 \<and>
   unat (channels (format frame_a)) = 2 \<and> unat (sample_bits (format frame_a)) = 16 \<and>
   length [1, 2, 3 :: byte] mod (unat (channels format_a) * (unat (sample_bits format_a) div 8)) \<noteq> 0 \<and>
   accept_frame format_a [1, 2, 3] = None \<and>
   receive_network [[129, 16, 2], [129, 16, 2, 3, 0, 1, 2, 3], [129, 16, 2, 3, 0, 1, 2, 3, 4], []] =
     Some (frame_a, [[]])"
proof -
  note t = accepted_frames_well_formed [where h = format_a and f = frame_a and g = frame_a
      and rest = "[[]]" and ds = "[]"]
  have m: "length [1, 2, 3 :: byte] mod
             (unat (channels format_a) * (unat (sample_bits format_a) div 8)) \<noteq> 0"
    by (simp add: format_a_def)
  have a: "payload_len frame_a mod
     (unat (channels (format frame_a)) * (unat (sample_bits (format frame_a)) div 8)) = 0"
    using t [where p = "[1, 2, 3, 4]"] test_accept_frame_a by blast
  have n: "accept_frame format_a [1, 2, 3] = None"
    using t [where p = "[1, 2, 3]"] m by blast
  have c: "unat (channels (format frame_a)) = 2" "unat (sample_bits (format frame_a)) = 16"
    by (simp_all add: frame_a_def format_a_def)
  from test_accept_frame_a a c m n test_receive_network show ?thesis by (intro conjI)
qed

section \<open>A change of format in Delivery\<close>

lemma log_format_append: "log_format c (xs @ ys) = log_format (log_format c xs) ys"
proof (induction xs arbitrary: c)
  case Nil
  show ?case by simp
next
  case (Cons e es)
  then show ?case by (cases e) simp_all
qed

lemma log_ordered_append:
  "log_ordered c (xs @ ys) = (log_ordered c xs \<and> log_ordered (log_format c xs) ys)"
proof (induction xs arbitrary: c)
  case Nil
  show ?case by simp
next
  case (Cons e es)
  then show ?case by (cases e) auto
qed

lemma log_frames_one_format:
  assumes "\<forall>g\<in>set q. format g = h" and "c = None \<or> c = Some h"
  shows "log_ordered c (map Sink_frame q) \<and>
         (log_format c (map Sink_frame q) = None \<or> log_format c (map Sink_frame q) = Some h)"
  using assms
proof (induction q arbitrary: c)
  case Nil
  then show ?case by simp
next
  case (Cons g q)
  have g: "format g = h" using Cons.prems(1) by simp
  have "log_ordered (Some h) (map Sink_frame q) \<and>
         (log_format (Some h) (map Sink_frame q) = None \<or>
          log_format (Some h) (map Sink_frame q) = Some h)"
    using Cons.IH [of "Some h"] Cons.prems(1) by simp
  then show ?case using g Cons.prems(2) by auto
qed

text \<open>
  What holds of Delivery at every moment: the queue holds Frames of the format of the
  previous Frame only, the Sink's log is ordered, and the Sink is in that format unless it
  has seen nothing yet.
\<close>

lemma on_frame_changed:
  assumes "previous_format d = Some p" and "p \<noteq> format f"
  shows "sink_log (on_frame pol d f) =
           sink_log d @ (if flush_to_sink pol then map Sink_frame (queue d) else []) @
           [Sink_reconfigure (format f)]"
    and "queue (on_frame pol d f) = drop (drops pol [] f) [f]"
    and "previous_format (on_frame pol d f) = Some (format f)"
  using assms by (simp_all add: on_frame_def flush_def notify_reconfiguration_def)

lemma on_frame_same:
  assumes "previous_format d = None \<or> previous_format d = Some (format f)"
  shows "sink_log (on_frame pol d f) = sink_log d"
    and "queue (on_frame pol d f) = drop (drops pol (queue d) f) (queue d @ [f])"
    and "previous_format (on_frame pol d f) = Some (format f)"
  using assms by (auto simp: on_frame_def)

lemma on_frame_cases:
  obtains (changed) p where "previous_format d = Some p" "p \<noteq> format f"
        | (same) "previous_format d = None \<or> previous_format d = Some (format f)"
  by (cases "previous_format d") auto

lemma on_frame_invariant:
  assumes q: "\<forall>g\<in>set (queue d). Some (format g) = previous_format d"
    and o: "log_ordered None (sink_log d)"
    and c: "log_format None (sink_log d) = None \<or> log_format None (sink_log d) = previous_format d"
  shows "(\<forall>g\<in>set (queue (on_frame pol d f)). Some (format g) = previous_format (on_frame pol d f)) \<and>
         log_ordered None (sink_log (on_frame pol d f)) \<and>
         (log_format None (sink_log (on_frame pol d f)) = None \<or>
          log_format None (sink_log (on_frame pol d f)) = previous_format (on_frame pol d f))"
proof (cases rule: on_frame_cases [of d f])
  case (changed p)
  note s = on_frame_changed [OF changed, of pol]
  have qf: "\<forall>g\<in>set (queue d). format g = p"
    using q changed(1) by simp
  have cp: "log_format None (sink_log d) = None \<or> log_format None (sink_log d) = Some p"
    using c changed(1) by simp
  have fl: "log_ordered (log_format None (sink_log d)) (map Sink_frame (queue d))"
    using log_frames_one_format [OF qf cp] by simp
  have "set (drop (drops pol [] f) [f]) \<subseteq> {f}"
    using set_drop_subset [of "drops pol [] f" "[f]"] by simp
  then have a: "\<forall>g\<in>set (queue (on_frame pol d f)). Some (format g) = previous_format (on_frame pol d f)"
    unfolding s by auto
  have b: "log_ordered None (sink_log (on_frame pol d f))"
    unfolding s using o fl by (simp add: log_ordered_append)
  have e: "log_format None (sink_log (on_frame pol d f)) = previous_format (on_frame pol d f)"
    unfolding s by (simp add: log_format_append)
  from a b e show ?thesis by simp
next
  case same
  note s = on_frame_same [OF same, of pol]
  have "set (drop (drops pol (queue d) f) (queue d @ [f])) \<subseteq> set (queue d) \<union> {f}"
    using set_drop_subset [of "drops pol (queue d) f" "queue d @ [f]"] by simp
  moreover have "\<forall>g\<in>set (queue d). format g = format f \<or> previous_format d = None"
    using q same by auto
  moreover have "previous_format d = None \<longrightarrow> queue d = []"
  proof
    assume n: "previous_format d = None"
    show "queue d = []"
    proof (cases "queue d")
      case Nil
      then show ?thesis .
    next
      case (Cons g r)
      then have "Some (format g) = previous_format d" using q by simp
      with n show ?thesis by simp
    qed
  qed
  ultimately have a: "\<forall>g\<in>set (queue (on_frame pol d f)).
      Some (format g) = previous_format (on_frame pol d f)"
    unfolding s by auto
  have b: "log_ordered None (sink_log (on_frame pol d f))"
    unfolding s using o .
  have e: "log_format None (sink_log (on_frame pol d f)) = None \<or>
          log_format None (sink_log (on_frame pol d f)) = previous_format (on_frame pol d f)"
    unfolding s using c same by auto
  from a b e show ?thesis by simp
qed

lemma dequeue_invariant:
  assumes q: "\<forall>g\<in>set (queue d). Some (format g) = previous_format d"
    and o: "log_ordered None (sink_log d)"
    and c: "log_format None (sink_log d) = None \<or> log_format None (sink_log d) = previous_format d"
  shows "(\<forall>g\<in>set (queue (dequeue d)). Some (format g) = previous_format (dequeue d)) \<and>
         log_ordered None (sink_log (dequeue d)) \<and>
         (log_format None (sink_log (dequeue d)) = None \<or>
          log_format None (sink_log (dequeue d)) = previous_format (dequeue d))"
proof (cases "queue d")
  case Nil
  then show ?thesis using q o c by (simp add: dequeue_def)
next
  case (Cons g r)
  have g: "Some (format g) = previous_format d" using q Cons by simp
  have s: "queue (dequeue d) = r" "sink_log (dequeue d) = sink_log d @ [Sink_frame g]"
    "previous_format (dequeue d) = previous_format d"
    using Cons by (simp_all add: dequeue_def)
  have a: "\<forall>g\<in>set (queue (dequeue d)). Some (format g) = previous_format (dequeue d)"
    unfolding s using q Cons by simp
  have b: "log_ordered None (sink_log (dequeue d))"
    unfolding s using o c g by (auto simp: log_ordered_append)
  have e: "log_format None (sink_log (dequeue d)) = previous_format (dequeue d)"
    unfolding s using g by (simp add: log_format_append)
  from a b e show ?thesis by simp
qed

lemma run_delivery_invariant:
  assumes "\<forall>g\<in>set (queue d). Some (format g) = previous_format d"
    and "log_ordered None (sink_log d)"
    and "log_format None (sink_log d) = None \<or> log_format None (sink_log d) = previous_format d"
  shows "(\<forall>g\<in>set (queue (run_delivery pol d ops)).
            Some (format g) = previous_format (run_delivery pol d ops)) \<and>
         log_ordered None (sink_log (run_delivery pol d ops))"
  using assms
proof (induction ops arbitrary: d)
  case Nil
  then show ?case by simp
next
  case (Cons x xs)
  have "(\<forall>g\<in>set (queue (delivery_step pol d x)). Some (format g) = previous_format (delivery_step pol d x)) \<and>
         log_ordered None (sink_log (delivery_step pol d x)) \<and>
         (log_format None (sink_log (delivery_step pol d x)) = None \<or>
          log_format None (sink_log (delivery_step pol d x)) = previous_format (delivery_step pol d x))"
  proof (cases x)
    case (Incoming f)
    then show ?thesis
      using on_frame_invariant [OF Cons.prems, of pol f] by simp
  next
    case Hand_over
    then show ?thesis
      using dequeue_invariant [OF Cons.prems] by simp
  qed
  then show ?case using Cons.IH [of "delivery_step pol d x"] by simp
qed

lemma filter_reconfigure_frames: "filter is_reconfigure (map Sink_frame q) = []"
  by (induction q) simp_all

lemma on_frame_reconfigurations:
  "length (filter is_reconfigure (sink_log (on_frame pol d f))) =
     length (filter is_reconfigure (sink_log d)) +
     (case previous_format d of None \<Rightarrow> 0 | Some p \<Rightarrow> if p \<noteq> format f then 1 else 0)"
proof (cases rule: on_frame_cases [of d f])
  case (changed p)
  show ?thesis
    unfolding on_frame_changed(1) [OF changed]
    using changed by (simp add: filter_reconfigure_frames)
next
  case same
  show ?thesis
    unfolding on_frame_same(1) [OF same]
    using same by auto
qed

lemma dequeue_reconfigurations:
  "length (filter is_reconfigure (sink_log (dequeue d))) =
     length (filter is_reconfigure (sink_log d))"
  by (cases "queue d") (simp_all add: dequeue_def)

lemma dequeue_previous_format: "previous_format (dequeue d) = previous_format d"
  by (cases "queue d") (simp_all add: dequeue_def)

lemma on_frame_previous_format: "previous_format (on_frame pol d f) = Some (format f)"
  by (cases rule: on_frame_cases [of d f]) (simp_all add: on_frame_changed on_frame_same)

lemma run_delivery_reconfigurations:
  "length (filter is_reconfigure (sink_log (run_delivery pol d ops))) =
     length (filter is_reconfigure (sink_log d)) + format_changes (previous_format d) (incoming ops)"
proof (induction ops arbitrary: d)
  case Nil
  show ?case by simp
next
  case (Cons x xs)
  show ?case
  proof (cases x)
    case (Incoming f)
    show ?thesis
      using Cons.IH [of "on_frame pol d f"] Incoming
      by (simp add: on_frame_reconfigurations on_frame_previous_format split: option.splits)
  next
    case Hand_over
    show ?thesis
      using Cons.IH [of "dequeue d"] Hand_over
      by (simp add: dequeue_reconfigurations dequeue_previous_format)
  qed
qed

text \<open>
  Claim C6. When a Frame comes in whose format differs from that of the previous Frame,
  Delivery drains the whole queue, then notifies the Sink of one reconfiguration, and only
  then queues the new Frame: the Sink's log grows by the drained Frames (if a flush hands
  them over) followed by exactly one notification, and the queue holds nothing but the new
  Frame. In every run from the start, whatever the latency policy drops and whenever
  Frames are handed over, the queue holds Frames of one format only, the Sink never gets a
  Frame of a format other than the one it is in, so that old and new formats do not mix,
  and the Sink sees exactly one reconfiguration for each change of format among the
  incoming Frames.
\<close>

theorem format_change_flushes_queue:
  "(previous_format d = Some p \<and> p \<noteq> format f \<longrightarrow>
      sink_log (on_frame pol d f) =
        sink_log d @ (if flush_to_sink pol then map Sink_frame (queue d) else []) @
        [Sink_reconfigure (format f)] \<and>
      set (queue (on_frame pol d f)) \<subseteq> {f} \<and>
      previous_format (on_frame pol d f) = Some (format f)) \<and>
   (\<forall>g\<in>set (queue (run_delivery pol delivery_start ops)).
      Some (format g) = previous_format (run_delivery pol delivery_start ops)) \<and>
   log_ordered None (sink_log (run_delivery pol delivery_start ops)) \<and>
   length (filter is_reconfigure (sink_log (run_delivery pol delivery_start ops))) =
     format_changes None (incoming ops)"
proof -
  have a: "previous_format d = Some p \<and> p \<noteq> format f \<longrightarrow>
      sink_log (on_frame pol d f) =
        sink_log d @ (if flush_to_sink pol then map Sink_frame (queue d) else []) @
        [Sink_reconfigure (format f)] \<and>
      set (queue (on_frame pol d f)) \<subseteq> {f} \<and>
      previous_format (on_frame pol d f) = Some (format f)"
  proof
    assume h: "previous_format d = Some p \<and> p \<noteq> format f"
    then have c: "previous_format d = Some p" "p \<noteq> format f" by simp_all
    have "set (drop (drops pol [] f) [f]) \<subseteq> {f}"
      using set_drop_subset [of "drops pol [] f" "[f]"] by simp
    then show "sink_log (on_frame pol d f) =
        sink_log d @ (if flush_to_sink pol then map Sink_frame (queue d) else []) @
        [Sink_reconfigure (format f)] \<and>
      set (queue (on_frame pol d f)) \<subseteq> {f} \<and>
      previous_format (on_frame pol d f) = Some (format f)"
      unfolding on_frame_changed [OF c] by simp
  qed
  have i: "(\<forall>g\<in>set (queue (run_delivery pol delivery_start ops)).
            Some (format g) = previous_format (run_delivery pol delivery_start ops)) \<and>
         log_ordered None (sink_log (run_delivery pol delivery_start ops))"
    by (rule run_delivery_invariant) (simp_all add: delivery_start_def)
  have n: "length (filter is_reconfigure (sink_log (run_delivery pol delivery_start ops))) =
     format_changes None (incoming ops)"
    using run_delivery_reconfigurations [of pol delivery_start ops]
    by (simp add: delivery_start_def)
  from a i n show ?thesis by simp
qed

lemma test_formats:
  "format frame_a = format_a" "format frame_b = format_b" "format_a \<noteq> format_b"
  "format_b \<noteq> format_a"
  by (simp_all add: frame_a_def frame_b_def format_a_def format_b_def)

lemma test_run_a_a_b:
  "run_delivery keep_all delivery_start
     [Incoming frame_a, Incoming frame_a, Hand_over, Incoming frame_b, Hand_over] =
     \<lparr> queue = [], previous_format = Some format_b,
       sink_log = [Sink_frame frame_a, Sink_frame frame_a, Sink_reconfigure format_b,
                   Sink_frame frame_b] \<rparr>"
  by (simp add: on_frame_def dequeue_def delivery_start_def keep_all_def test_formats flush_def
        notify_reconfiguration_def)

theorem format_change_flushes_queue_witness:
  "previous_format \<lparr> queue = [frame_a], previous_format = Some format_a,
                     sink_log = [Sink_frame frame_a] \<rparr> = Some format_a \<and>
   format_a \<noteq> format frame_b \<and>
   flush_to_sink keep_all \<and>
   sink_log (on_frame keep_all
     \<lparr> queue = [frame_a], previous_format = Some format_a, sink_log = [Sink_frame frame_a] \<rparr>
     frame_b) =
     [Sink_frame frame_a, Sink_frame frame_a, Sink_reconfigure format_b] \<and>
   run_delivery keep_all delivery_start
     [Incoming frame_a, Incoming frame_a, Hand_over, Incoming frame_b, Hand_over] =
     \<lparr> queue = [], previous_format = Some format_b,
       sink_log = [Sink_frame frame_a, Sink_frame frame_a, Sink_reconfigure format_b,
                   Sink_frame frame_b] \<rparr> \<and>
   format_changes None
     (incoming [Incoming frame_a, Incoming frame_a, Hand_over, Incoming frame_b, Hand_over]) = 1 \<and>
   length (filter is_reconfigure (sink_log (run_delivery keep_all delivery_start
     [Incoming frame_a, Incoming frame_a, Hand_over, Incoming frame_b, Hand_over]))) = 1"
proof -
  let ?d = "\<lparr> queue = [frame_a], previous_format = Some format_a,
              sink_log = [Sink_frame frame_a] \<rparr>"
  let ?ops = "[Incoming frame_a, Incoming frame_a, Hand_over, Incoming frame_b, Hand_over]"
  have p: "previous_format ?d = Some format_a" by simp
  have ne: "format_a \<noteq> format frame_b" by (simp add: test_formats)
  have fs: "flush_to_sink keep_all" by (simp add: keep_all_def)
  note t = format_change_flushes_queue [where d = ?d and p = format_a and f = frame_b
      and pol = keep_all and ops = ?ops]
  from t p ne have "sink_log (on_frame keep_all ?d frame_b) =
      sink_log ?d @ (if flush_to_sink keep_all then map Sink_frame (queue ?d) else []) @
      [Sink_reconfigure (format frame_b)]"
    by blast
  then have l: "sink_log (on_frame keep_all ?d frame_b) =
     [Sink_frame frame_a, Sink_frame frame_a, Sink_reconfigure format_b]"
    by (simp add: fs test_formats)
  have c: "format_changes None (incoming ?ops) = 1"
    by (simp add: test_formats)
  from t have "length (filter is_reconfigure (sink_log (run_delivery keep_all delivery_start ?ops))) =
     format_changes None (incoming ?ops)"
    by blast
  with c have n: "length (filter is_reconfigure (sink_log (run_delivery keep_all delivery_start ?ops))) = 1"
    by simp
  from p ne fs l test_run_a_a_b c n show ?thesis by (intro conjI)
qed

end
